theory Spec2Isabelle
  imports Complex_Main
begin

section \<open>Scalars, errors and counted loops\<close>

text \<open>
  The calibration code computes with \<^verbatim>\<open>Scalar\<close> (double) and \<^verbatim>\<open>float\<close> values. They are
  embedded as exact reals: rounding, overflow to infinity and the propagation of NaN through
  arithmetic are outside the model. The only non-finite values that the code itself tests for
  or creates (the points rejected by \<^verbatim>\<open>pcl::isFinite\<close> and the explicit NaN point) are kept,
  as a constructor of their own.
\<close>

type_synonym Scalar = real

text \<open>
  Ways in which a run stops early: a failed \<^verbatim>\<open>assert\<close> (assertions enabled), the exceptions
  of the 2D accessor \<^verbatim>\<open>pcl::PointCloud::at (column, row)\<close> (it refuses a cloud whose height is
  not greater than one and range-checks the index into the point storage), the
  dereference of an empty shared pointer, and an integer division by zero (the process is
  killed by the arithmetic trap).
\<close>

datatype error = AssertionFailed | UnorganizedPointCloud | OutOfRange | NullPointer | DivisionByZero

text \<open>
  \<^verbatim>\<open>for (k = 0; k < n; ++k) body\<close> is \<open>for_loop [0..<n] body\<close>: the body is run on the indices
  in order and the first error ends the loop.
\<close>

fun for_loop :: "nat list \<Rightarrow> (nat \<Rightarrow> 's \<Rightarrow> error + 's) \<Rightarrow> 's \<Rightarrow> error + 's" where
  "for_loop [] body s = Inr s"
| "for_loop (k # ks) body s =
     (case body k s of Inl e \<Rightarrow> Inl e | Inr s' \<Rightarrow> for_loop ks body s')"

section \<open>Point clouds and the down-sampling of \<^verbatim>\<open>Calibration::addData_\<close>\<close>

text \<open>
  A \<^verbatim>\<open>pcl::PointXYZ\<close>. \<open>NonFinite\<close> stands for every point that \<^verbatim>\<open>pcl::isFinite\<close> rejects
  (some coordinate is NaN or infinite), in particular for \<^verbatim>\<open>bad_point (nan, nan, nan)\<close>.
\<close>

datatype PCLPoint3 = PCLPoint3 Scalar Scalar Scalar | NonFinite

fun isFinite :: "PCLPoint3 \<Rightarrow> bool" where
  "isFinite (PCLPoint3 x y z) = True"
| "isFinite NonFinite = False"

definition zero :: PCLPoint3 where
  "zero = PCLPoint3 0 0 0"

definition bad_point :: PCLPoint3 where
  "bad_point = NonFinite"

text \<open>The three statements \<^verbatim>\<open>q.x += p.x; q.y += p.y; q.z += p.z\<close>.\<close>

fun plus_point :: "PCLPoint3 \<Rightarrow> PCLPoint3 \<Rightarrow> PCLPoint3" where
  "plus_point (PCLPoint3 x y z) (PCLPoint3 a b c) = PCLPoint3 (x + a) (y + b) (z + c)"
| "plus_point NonFinite p = NonFinite"
| "plus_point q NonFinite = NonFinite"

text \<open>The three statements \<^verbatim>\<open>q.x /= count; q.y /= count; q.z /= count\<close>.\<close>

fun divide_point :: "PCLPoint3 \<Rightarrow> nat \<Rightarrow> PCLPoint3" where
  "divide_point (PCLPoint3 x y z) count = PCLPoint3 (x / real count) (y / real count) (z / real count)"
| "divide_point NonFinite count = NonFinite"

text \<open>
  A \<^verbatim>\<open>pcl::PointCloud<pcl::PointXYZ>\<close>: the fields the code reads and writes. The header is
  copied unchanged and plays no role. The fields \<^verbatim>\<open>width\<close> and \<^verbatim>\<open>height\<close> are 32-bit unsigned
  and the accessor \<^verbatim>\<open>at (column, row)\<close> computes its index \<^verbatim>\<open>row * width + column\<close> in 32-bit
  unsigned arithmetic. They are naturals here, and the index is computed exactly: the model
  is that of the clouds that \<open>representable\<close> describes, for which no index of a pixel reaches
  \<open>2 ^ 32\<close>. The product \<^verbatim>\<open>ratio_ * ratio_\<close>, which does overflow for ratios that
  \<^verbatim>\<open>setDownSampleRatio\<close> accepts, is computed as the machine computes it (see \<open>int_times\<close>).
\<close>

record PCLCloud3 =
  width :: nat
  height :: nat
  is_dense :: bool
  points :: "PCLPoint3 list"

definition representable :: "PCLCloud3 \<Rightarrow> bool" where
  "representable c =
     (width c < 2 ^ 32 \<and> height c < 2 ^ 32 \<and> width c * height c < 2 ^ 32)"

text \<open>
  \<^verbatim>\<open>at (column, row)\<close>, for reading and for writing: the point at index
  \<open>row * width + column\<close> of the storage, an exception when the height of the cloud is not
  greater than one or the index is outside the storage.
\<close>

definition read_at :: "PCLCloud3 \<Rightarrow> nat \<Rightarrow> nat \<Rightarrow> error + PCLPoint3" where
  "read_at c column row =
     (if 1 < height c then
        (if row * width c + column < length (points c)
         then Inr (points c ! (row * width c + column))
         else Inl OutOfRange)
      else Inl UnorganizedPointCloud)"

definition write_at :: "PCLCloud3 \<Rightarrow> nat \<Rightarrow> nat \<Rightarrow> PCLPoint3 \<Rightarrow> error + PCLCloud3" where
  "write_at c column row p =
     (if 1 < height c then
        (if row * width c + column < length (points c)
         then Inr (c\<lparr>points := (points c)[row * width c + column := p]\<rparr>)
         else Inl OutOfRange)
      else Inl UnorganizedPointCloud)"

text \<open>
  The body of the two innermost loops, for the input pixel \<open>(j * ratio + dj, i * ratio + di)\<close>:
  the state is the new cloud and \<^verbatim>\<open>count\<close>.
\<close>

definition block_step ::
  "PCLCloud3 \<Rightarrow> nat \<Rightarrow> nat \<Rightarrow> nat \<Rightarrow> nat \<Rightarrow> nat \<Rightarrow> PCLCloud3 \<times> nat \<Rightarrow> error + PCLCloud3 \<times> nat" where
  "block_step cloud ratio i j di dj s =
     (case s of (new_cloud, count) \<Rightarrow>
       (case read_at cloud (j * ratio + dj) (i * ratio + di) of
          Inl e \<Rightarrow> Inl e
        | Inr p \<Rightarrow>
            if isFinite p then
              (case read_at new_cloud j i of
                 Inl e \<Rightarrow> Inl e
               | Inr q \<Rightarrow>
                   (case write_at new_cloud j i (plus_point q p) of
                      Inl e \<Rightarrow> Inl e
                    | Inr new_cloud' \<Rightarrow> Inr (new_cloud', count + 1)))
            else Inr (new_cloud, count)))"

text \<open>The body of the loop over \<open>j\<close>: one output pixel \<open>(j, i)\<close>.\<close>

definition pixel_step :: "PCLCloud3 \<Rightarrow> nat \<Rightarrow> nat \<Rightarrow> nat \<Rightarrow> PCLCloud3 \<Rightarrow> error + PCLCloud3" where
  "pixel_step cloud ratio i j new_cloud =
     (case write_at new_cloud j i zero of
        Inl e \<Rightarrow> Inl e
      | Inr nc0 \<Rightarrow>
          (case for_loop [0..<ratio]
                  (\<lambda>di. for_loop [0..<ratio] (\<lambda>dj. block_step cloud ratio i j di dj)) (nc0, 0) of
             Inl e \<Rightarrow> Inl e
           | Inr (nc1, count) \<Rightarrow>
               if 0 < count then
                 (case read_at nc1 j i of
                    Inl e \<Rightarrow> Inl e
                  | Inr q \<Rightarrow> write_at nc1 j i (divide_point q count))
               else
                 (case write_at nc1 j i bad_point of
                    Inl e \<Rightarrow> Inl e
                  | Inr nc2 \<Rightarrow> Inr (nc2\<lparr>is_dense := False\<rparr>))))"

text \<open>
  The product of two \<^verbatim>\<open>int\<close> values, as in \<^verbatim>\<open>ratio_ * ratio_\<close>: \<^verbatim>\<open>int\<close> has 32 bits, and a
  product outside its range is reduced modulo \<open>2 ^ 32\<close> into the range from \<open>- 2 ^ 31\<close> to
  \<open>2 ^ 31 - 1\<close>. (The language leaves the overflowing product undefined; the wrap-around is
  what the two's complement multiplication of the compiled code gives.)
\<close>

definition int_times :: "int \<Rightarrow> int \<Rightarrow> int" where
  "int_times a b = (a * b + 2 ^ 31) mod 2 ^ 32 - 2 ^ 31"

text \<open>
  The conversion of an \<^verbatim>\<open>int\<close> to \<^verbatim>\<open>std::size_t\<close> (64 bits), which the division
  \<^verbatim>\<open>cloud->size() / (ratio_ * ratio_)\<close> applies to its divisor: a negative value \<open>a\<close> becomes
  \<open>2 ^ 64 + a\<close>.
\<close>

definition size_t_of_int :: "int \<Rightarrow> nat" where
  "size_t_of_int a = nat (a mod 2 ^ 64)"

text \<open>
  The new cloud before the loops: \<open>n\<close> default points, which are \<open>(0, 0, 0)\<close>, the width and
  the height divided by the ratio, and the density flag of the input.
\<close>

definition allocate :: "nat \<Rightarrow> nat \<Rightarrow> PCLCloud3 \<Rightarrow> PCLCloud3" where
  "allocate ratio n cloud =
     \<lparr>width = width cloud div ratio, height = height cloud div ratio,
      is_dense = is_dense cloud, points = replicate n zero\<rparr>"

text \<open>The loops over \<open>i\<close> and \<open>j\<close>, on the new cloud.\<close>

definition fill :: "nat \<Rightarrow> PCLCloud3 \<Rightarrow> PCLCloud3 \<Rightarrow> error + PCLCloud3" where
  "fill ratio cloud new_cloud =
     for_loop [0..<height new_cloud]
       (\<lambda>i. for_loop [0..<width new_cloud] (\<lambda>j. pixel_step cloud ratio i j)) new_cloud"

text \<open>
  The branch \<^verbatim>\<open>ratio_ > 1\<close> of \<^verbatim>\<open>addData_\<close>: the new cloud is allocated with
  \<^verbatim>\<open>cloud->size() / (ratio_ * ratio_)\<close> points and filled. The divisor is the \<^verbatim>\<open>int\<close> product
  converted to \<^verbatim>\<open>std::size_t\<close>; when it is zero, which is the case for the ratio 65536, the
  division traps before anything is allocated. In this branch the ratio is positive, so
  that its conversions to the unsigned types of the other operands keep its value.
\<close>

definition down_sample :: "int \<Rightarrow> PCLCloud3 \<Rightarrow> error + PCLCloud3" where
  "down_sample ratio cloud =
     (let divisor = size_t_of_int (int_times ratio ratio)
      in if divisor = 0 then Inl DivisionByZero
         else fill (nat ratio) cloud
                (allocate (nat ratio) (length (points cloud) div divisor) cloud))"

text \<open>The depth data that \<^verbatim>\<open>addData_\<close> stores for an input cloud.\<close>

definition addData_depth :: "int \<Rightarrow> PCLCloud3 \<Rightarrow> error + PCLCloud3" where
  "addData_depth ratio cloud = (if 1 < ratio then down_sample ratio cloud else Inr cloud)"

subsection \<open>Facts about counted loops\<close>

lemma for_loop_append:
  "for_loop (xs @ ys) body s =
     (case for_loop xs body s of Inl e \<Rightarrow> Inl e | Inr s' \<Rightarrow> for_loop ys body s')"
  by (induction xs arbitrary: s) (auto split: sum.splits)

lemma for_loop_invariant:
  assumes "I 0 s"
    and "\<And>k t. k < n \<Longrightarrow> I k t \<Longrightarrow> \<exists>t'. body k t = Inr t' \<and> I (Suc k) t'"
  shows "\<exists>t. for_loop [0..<n] body s = Inr t \<and> I n t"
  using assms(2)
proof (induction n)
  case 0
  then show ?case using assms(1) by simp
next
  case (Suc n)
  then obtain t where t: "for_loop [0..<n] body s = Inr t" "I n t"
    by (metis less_Suc_eq)
  from Suc.prems [of n t] t obtain t' where "body n t = Inr t'" "I (Suc n) t'"
    by auto
  with t show ?case
    by (simp add: for_loop_append)
qed

subsection \<open>What the specification calls the mean of a block\<close>

text \<open>
  The finite points of a list of points, as coordinate triples, and their component-wise
  mean. \<open>block_points\<close> lists the input pixels of the block of the output pixel \<open>(j, i)\<close>
  (column \<open>j\<close>, row \<open>i\<close>): rows \<open>i * ratio + di\<close> and columns \<open>j * ratio + dj\<close> of the input,
  stored row by row.
\<close>

fun coords :: "PCLPoint3 \<Rightarrow> (Scalar \<times> Scalar \<times> Scalar) option" where
  "coords (PCLPoint3 x y z) = Some (x, y, z)"
| "coords NonFinite = None"

definition finite_points :: "PCLPoint3 list \<Rightarrow> (Scalar \<times> Scalar \<times> Scalar) list" where
  "finite_points ps = List.map_filter coords ps"

definition sum_point :: "(Scalar \<times> Scalar \<times> Scalar) list \<Rightarrow> PCLPoint3" where
  "sum_point ts =
     PCLPoint3 (sum_list (map fst ts)) (sum_list (map (fst \<circ> snd) ts)) (sum_list (map (snd \<circ> snd) ts))"

definition mean_point :: "(Scalar \<times> Scalar \<times> Scalar) list \<Rightarrow> PCLPoint3" where
  "mean_point ts =
     PCLPoint3 (sum_list (map fst ts) / real (length ts))
       (sum_list (map (fst \<circ> snd) ts) / real (length ts))
       (sum_list (map (snd \<circ> snd) ts) / real (length ts))"

definition block_row :: "PCLCloud3 \<Rightarrow> nat \<Rightarrow> nat \<Rightarrow> nat \<Rightarrow> nat \<Rightarrow> nat \<Rightarrow> PCLPoint3 list" where
  "block_row cloud ratio i j di n =
     map (\<lambda>dj. points cloud ! ((i * ratio + di) * width cloud + (j * ratio + dj))) [0..<n]"

definition block_points :: "PCLCloud3 \<Rightarrow> nat \<Rightarrow> nat \<Rightarrow> nat \<Rightarrow> PCLPoint3 list" where
  "block_points cloud ratio i j =
     concat (map (\<lambda>di. block_row cloud ratio i j di ratio) [0..<ratio])"

lemma finite_points_append: "finite_points (ps @ qs) = finite_points ps @ finite_points qs"
  by (simp add: finite_points_def map_filter_def)

lemma finite_points_single:
  "finite_points [p] = (case p of PCLPoint3 x y z \<Rightarrow> [(x, y, z)] | NonFinite \<Rightarrow> [])"
  by (cases p) (simp_all add: finite_points_def map_filter_def)

subsection \<open>The loops compute the block mean\<close>

text \<open>The state of the two inner loops after the finite points \<open>ts\<close> have been added up.\<close>

definition acc_state :: "PCLCloud3 \<Rightarrow> nat \<Rightarrow> (Scalar \<times> Scalar \<times> Scalar) list \<Rightarrow> PCLCloud3 \<times> nat" where
  "acc_state nc k ts = (nc\<lparr>points := (points nc)[k := sum_point ts]\<rparr>, length ts)"

lemma block_step_acc:
  assumes "1 < height cloud" "(i * ratio + di) * width cloud + (j * ratio + dj) < length (points cloud)"
    and "1 < height nc" "i * width nc + j < length (points nc)"
  shows "block_step cloud ratio i j di dj (acc_state nc (i * width nc + j) ts) =
     Inr (acc_state nc (i * width nc + j)
            (ts @ finite_points [points cloud ! ((i * ratio + di) * width cloud + (j * ratio + dj))]))"
  using assms
  by (cases "points cloud ! ((i * ratio + di) * width cloud + (j * ratio + dj))")
     (simp_all add: block_step_def acc_state_def read_at_def write_at_def sum_point_def finite_points_single)


lemma block_row_Suc:
  "block_row cloud ratio i j di (Suc n) =
     block_row cloud ratio i j di n @ [points cloud ! ((i * ratio + di) * width cloud + (j * ratio + n))]"
  by (simp add: block_row_def)

lemma loop_dj_acc:
  assumes "1 < height cloud"
    and "\<And>dj. dj < n \<Longrightarrow> (i * ratio + di) * width cloud + (j * ratio + dj) < length (points cloud)"
    and "1 < height nc" "i * width nc + j < length (points nc)"
  shows "for_loop [0..<n] (block_step cloud ratio i j di) (acc_state nc (i * width nc + j) ts) =
     Inr (acc_state nc (i * width nc + j) (ts @ finite_points (block_row cloud ratio i j di n)))"
  using assms(2)
proof (induction n)
  case 0
  then show ?case by (simp add: block_row_def finite_points_def map_filter_def)
next
  case (Suc n)
  then have "for_loop [0..<n] (block_step cloud ratio i j di) (acc_state nc (i * width nc + j) ts) =
     Inr (acc_state nc (i * width nc + j) (ts @ finite_points (block_row cloud ratio i j di n)))"
    by simp
  moreover have "(i * ratio + di) * width cloud + (j * ratio + n) < length (points cloud)"
    using Suc.prems by simp
  ultimately show ?case
    using assms(1,3,4)
    by (simp add: for_loop_append block_step_acc block_row_Suc finite_points_append)
qed

lemma loop_di_acc:
  assumes "1 < height cloud"
    and "\<And>di dj. di < m \<Longrightarrow> dj < ratio \<Longrightarrow>
           (i * ratio + di) * width cloud + (j * ratio + dj) < length (points cloud)"
    and "1 < height nc" "i * width nc + j < length (points nc)"
  shows "for_loop [0..<m] (\<lambda>di. for_loop [0..<ratio] (block_step cloud ratio i j di))
           (acc_state nc (i * width nc + j) ts) =
     Inr (acc_state nc (i * width nc + j)
            (ts @ finite_points (concat (map (\<lambda>di. block_row cloud ratio i j di ratio) [0..<m]))))"
  using assms(2)
proof (induction m)
  case 0
  then show ?case by (simp add: finite_points_def map_filter_def)
next
  case (Suc m)
  then have "for_loop [0..<m] (\<lambda>di. for_loop [0..<ratio] (block_step cloud ratio i j di))
           (acc_state nc (i * width nc + j) ts) =
     Inr (acc_state nc (i * width nc + j)
            (ts @ finite_points (concat (map (\<lambda>di. block_row cloud ratio i j di ratio) [0..<m]))))"
    by simp
  moreover have "for_loop [0..<ratio] (block_step cloud ratio i j m) (acc_state nc (i * width nc + j) us) =
     Inr (acc_state nc (i * width nc + j) (us @ finite_points (block_row cloud ratio i j m ratio)))" for us
    using assms(1,3,4) Suc.prems by (intro loop_dj_acc) simp_all
  ultimately show ?case
    by (simp add: for_loop_append finite_points_append)
qed

definition block_mean :: "PCLCloud3 \<Rightarrow> nat \<Rightarrow> nat \<Rightarrow> nat \<Rightarrow> PCLPoint3" where
  "block_mean cloud ratio i j =
     (let ts = finite_points (block_points cloud ratio i j)
      in if ts = [] then bad_point else mean_point ts)"

lemma pixel_step_result:
  assumes "1 < height cloud"
    and "\<And>di dj. di < ratio \<Longrightarrow> dj < ratio \<Longrightarrow>
           (i * ratio + di) * width cloud + (j * ratio + dj) < length (points cloud)"
    and "1 < height nc" "i * width nc + j < length (points nc)"
  shows "pixel_step cloud ratio i j nc =
     Inr (nc\<lparr>points := (points nc)[i * width nc + j := block_mean cloud ratio i j],
             is_dense := is_dense nc \<and> finite_points (block_points cloud ratio i j) \<noteq> []\<rparr>)"
proof -
  let ?k = "i * width nc + j"
  let ?nc0 = "nc\<lparr>points := (points nc)[?k := zero]\<rparr>"
  have w: "write_at nc j i zero = Inr ?nc0"
    using assms(3,4) by (simp add: write_at_def)
  have a0: "(?nc0, 0) = acc_state ?nc0 (i * width ?nc0 + j) []"
    by (simp add: acc_state_def sum_point_def zero_def)
  have l: "for_loop [0..<ratio] (\<lambda>di. for_loop [0..<ratio] (\<lambda>dj. block_step cloud ratio i j di dj)) (?nc0, 0) =
     Inr (acc_state ?nc0 ?k (finite_points (block_points cloud ratio i j)))"
    unfolding a0 block_points_def
    using loop_di_acc [of cloud ratio ratio i j ?nc0 "[]"] assms by simp
  show ?thesis
    using assms(3,4)
    by (simp add: pixel_step_def w l acc_state_def read_at_def write_at_def block_mean_def
        sum_point_def mean_point_def bad_point_def Let_def)
qed


lemma for_loop_chain:
  assumes "\<And>k. k < n \<Longrightarrow> body k (f k) = Inr (f (Suc k))"
  shows "for_loop [0..<n] body (f 0) = Inr (f n)"
  using assms by (induction n) (simp_all add: for_loop_append)

text \<open>
  The new cloud of \<open>N\<close> stored points after its first \<open>n\<close> pixels, in row-major order, have
  been filled.
\<close>

definition filled :: "PCLCloud3 \<Rightarrow> nat \<Rightarrow> nat \<Rightarrow> nat \<Rightarrow> PCLCloud3" where
  "filled cloud ratio N n =
     (let w = width cloud div ratio in
      \<lparr>width = w, height = height cloud div ratio,
       is_dense = (is_dense cloud \<and>
          list_all (\<lambda>k. finite_points (block_points cloud ratio (k div w) (k mod w)) \<noteq> []) [0..<n]),
       points = map (\<lambda>k. if k < n then block_mean cloud ratio (k div w) (k mod w) else zero)
                  [0..<N]\<rparr>)"

lemma block_in_range:
  fixes W H ratio i j di dj :: nat
  assumes "i < H div ratio" "j < W div ratio" "di < ratio" "dj < ratio"
  shows "(i * ratio + di) * W + (j * ratio + dj) < W * H"
proof -
  have r: "0 < ratio"
    using assms(3) by simp
  have "Suc j * ratio \<le> W"
    using assms(2) r by (simp add: less_eq_div_iff_mult_less_eq [symmetric] Suc_le_eq del: mult_Suc)
  then have c: "j * ratio + dj < W"
    using assms(4) by simp
  have "Suc i * ratio \<le> H"
    using assms(1) r by (simp add: less_eq_div_iff_mult_less_eq [symmetric] Suc_le_eq del: mult_Suc)
  then have "Suc (i * ratio + di) \<le> H"
    using assms(3) by simp
  then have "Suc (i * ratio + di) * W \<le> H * W"
    by (rule mult_le_mono1)
  with c show ?thesis
    by (simp add: mult.commute)
qed

lemma storage_covers_grid:
  fixes W H ratio :: nat
  assumes "0 < ratio"
  shows "(W div ratio) * (H div ratio) \<le> (W * H) div (ratio * ratio)"
proof -
  have "(W div ratio) * ratio * ((H div ratio) * ratio) \<le> W * H"
    by (intro mult_le_mono) simp_all
  then have "(W div ratio) * (H div ratio) * (ratio * ratio) \<le> W * H"
    by (simp add: mult.assoc mult.left_commute)
  then show ?thesis
    using assms by (simp add: less_eq_div_iff_mult_less_eq)
qed

lemma pixel_step_filled:
  assumes wf: "length (points cloud) = width cloud * height cloud"
    and r: "0 < ratio" and h: "1 < height cloud div ratio"
    and N: "(width cloud div ratio) * (height cloud div ratio) \<le> N"
    and i: "i < height cloud div ratio" and j: "j < width cloud div ratio"
  shows "pixel_step cloud ratio i j (filled cloud ratio N (i * (width cloud div ratio) + j)) =
     Inr (filled cloud ratio N (Suc (i * (width cloud div ratio) + j)))"
proof -
  let ?w = "width cloud div ratio"
  let ?h = "height cloud div ratio"
  let ?N = "N"
  let ?n = "i * ?w + j"
  let ?nc = "filled cloud ratio N ?n"
  have "Suc i * ?w \<le> ?h * ?w"
    using i by (intro mult_le_mono1) simp
  then have "?n < ?w * ?h"
    using j by (simp add: mult.commute)
  also have "\<dots> \<le> ?N"
    by (rule N)
  finally have n: "?n < ?N" .
  have H: "1 < height cloud"
    using h r by (metis div_le_dividend less_le_trans)
  have dm: "?n div ?w = i" "?n mod ?w = j"
    using j by simp_all
  have "pixel_step cloud ratio i j ?nc =
     Inr (?nc\<lparr>points := (points ?nc)[i * width ?nc + j := block_mean cloud ratio i j],
             is_dense := is_dense ?nc \<and> finite_points (block_points cloud ratio i j) \<noteq> []\<rparr>)"
  proof (rule pixel_step_result)
    show "1 < height cloud" by (rule H)
    show "(i * ratio + di) * width cloud + (j * ratio + dj) < length (points cloud)"
      if "di < ratio" "dj < ratio" for di dj
      using block_in_range [OF i j that] wf by simp
    show "1 < height ?nc" using h by (simp add: filled_def Let_def)
    show "i * width ?nc + j < length (points ?nc)" using n by (simp add: filled_def Let_def)
  qed
  also have "\<dots> = Inr (filled cloud ratio N (Suc ?n))"
  proof -
    have "(map (\<lambda>k. if k < ?n then block_mean cloud ratio (k div ?w) (k mod ?w) else zero) [0..<?N])
            [?n := block_mean cloud ratio i j] =
          map (\<lambda>k. if k < Suc ?n then block_mean cloud ratio (k div ?w) (k mod ?w) else zero) [0..<?N]"
      using dm by (intro nth_equalityI) (auto simp: nth_list_update less_Suc_eq)
    then show ?thesis
      using dm by (simp add: filled_def Let_def conj_ac)
  qed
  finally show ?thesis .
qed

lemma row_loop_filled:
  assumes wf: "length (points cloud) = width cloud * height cloud"
    and r: "0 < ratio" and h: "1 < height cloud div ratio"
    and N: "(width cloud div ratio) * (height cloud div ratio) \<le> N"
    and i: "i < height cloud div ratio"
  shows "for_loop [0..<width cloud div ratio] (\<lambda>j. pixel_step cloud ratio i j)
           (filled cloud ratio N (i * (width cloud div ratio))) =
     Inr (filled cloud ratio N (Suc i * (width cloud div ratio)))"
  using for_loop_chain [of "width cloud div ratio" "\<lambda>j. pixel_step cloud ratio i j"
      "\<lambda>j. filled cloud ratio N (i * (width cloud div ratio) + j)"]
    pixel_step_filled [OF wf r h N i]
  by (simp add: add.commute)

lemma allocate_filled: "allocate ratio N cloud = filled cloud ratio N 0"
  by (simp add: allocate_def filled_def Let_def map_replicate_const)

text \<open>
  With enough storage for its pixels, the new cloud is filled completely, unless its height
  is one and it has a pixel.
\<close>

lemma fill_filled:
  assumes wf: "length (points cloud) = width cloud * height cloud"
    and r: "0 < ratio"
    and h: "height cloud div ratio \<noteq> 1 \<or> width cloud div ratio = 0"
    and N: "(width cloud div ratio) * (height cloud div ratio) \<le> N"
  shows "fill ratio cloud (allocate ratio N cloud) =
     Inr (filled cloud ratio N ((width cloud div ratio) * (height cloud div ratio)))"
proof -
  consider "height cloud div ratio = 0" | "width cloud div ratio = 0" | "1 < height cloud div ratio"
    using h by linarith
  then show ?thesis
  proof cases
    case 1
    then show ?thesis
      by (simp add: fill_def allocate_filled) (simp add: filled_def)
  next
    case 2
    have "for_loop ks (\<lambda>i. for_loop [] (\<lambda>j. pixel_step cloud ratio i j)) t = Inr t" for ks t
      by (induction ks) simp_all
    with 2 show ?thesis
      by (simp add: fill_def allocate_filled) (simp add: filled_def)
  next
    case 3
    have "for_loop [0..<height cloud div ratio]
            (\<lambda>i. for_loop [0..<width cloud div ratio] (\<lambda>j. pixel_step cloud ratio i j))
            (filled cloud ratio N (0 * (width cloud div ratio))) =
          Inr (filled cloud ratio N ((height cloud div ratio) * (width cloud div ratio)))"
      by (rule for_loop_chain [of _ _ "\<lambda>i. filled cloud ratio N (i * (width cloud div ratio))"])
         (rule row_loop_filled [OF wf r 3 N])
    then show ?thesis
      by (simp add: fill_def allocate_filled mult.commute) (simp add: filled_def)
  qed
qed


text \<open>
  The divisor of the storage size is \<open>ratio * ratio\<close> as long as the product fits an
  \<^verbatim>\<open>int\<close>, that is, for the ratios up to 46340.
\<close>

lemma divisor_exact:
  assumes "1 < ratio" "ratio \<le> 46340"
  shows "size_t_of_int (int_times ratio ratio) = nat ratio * nat ratio"
proof -
  have "ratio * ratio \<le> 46340 * 46340"
    using assms by (intro mult_mono) simp_all
  then have b: "ratio * ratio < 2 ^ 31"
    by simp
  have n: "0 \<le> ratio * ratio"
    by simp
  have "(ratio * ratio + 2 ^ 31) mod 2 ^ 32 = ratio * ratio + 2 ^ 31"
    using b n by (intro mod_pos_pos_trivial) simp_all
  then have "int_times ratio ratio = ratio * ratio"
    by (simp add: int_times_def)
  moreover have "(ratio * ratio) mod 2 ^ 64 = ratio * ratio"
    using b n by (intro mod_pos_pos_trivial) simp_all
  ultimately show ?thesis
    using assms(1) by (simp add: size_t_of_int_def nat_mult_distrib)
qed

lemma down_sample_fill:
  assumes "1 < ratio" "ratio \<le> 46340"
  shows "down_sample ratio cloud =
     fill (nat ratio) cloud
       (allocate (nat ratio) (length (points cloud) div (nat ratio * nat ratio)) cloud)"
  using assms by (simp add: down_sample_def divisor_exact Let_def)


subsection \<open>Sizes of the new cloud, and the pixels that are read\<close>

lemma for_loop_preserves:
  assumes "\<And>k t t'. k \<in> set ks \<Longrightarrow> P t \<Longrightarrow> body k t = Inr t' \<Longrightarrow> P t'"
    and "P s" "for_loop ks body s = Inr s'"
  shows "P s'"
  using assms
proof (induction ks arbitrary: s)
  case Nil
  then show ?case by simp
next
  case (Cons k ks)
  from Cons.prems(3) obtain t where t: "body k s = Inr t" "for_loop ks body t = Inr s'"
    by (auto split: sum.splits)
  have "P t"
    using Cons.prems(1) [of k s t] Cons.prems(2) t(1) by simp
  show ?case
  proof (rule Cons.IH [OF _ \<open>P t\<close> t(2)])
    show "P u'" if "l \<in> set ks" "P u" "body l u = Inr u'" for l u u'
      using Cons.prems(1) [of l u u'] that by simp
  qed
qed

lemma for_loop_cong:
  assumes "\<And>k t. k \<in> set ks \<Longrightarrow> body k t = body' k t"
  shows "for_loop ks body s = for_loop ks body' s"
  using assms by (induction ks arbitrary: s) (auto split: sum.splits)

definition shape :: "PCLCloud3 \<Rightarrow> nat \<times> nat \<times> nat" where
  "shape c = (width c, height c, length (points c))"

lemma write_at_shape: "write_at c column row p = Inr c' \<Longrightarrow> shape c' = shape c"
  by (auto simp: write_at_def shape_def split: if_splits)

lemma block_step_shape:
  "block_step cloud ratio i j di dj (nc, count) = Inr (nc', count') \<Longrightarrow> shape nc' = shape nc"
  by (auto simp: block_step_def split: sum.splits if_splits dest: write_at_shape)

lemma block_loops_shape:
  assumes "for_loop ks (\<lambda>di. for_loop ls (\<lambda>dj. block_step cloud ratio i j di dj)) s = Inr s'"
  shows "shape (fst s') = shape (fst s)"
proof -
  have inner: "shape (fst t') = shape (fst s)"
    if "shape (fst t) = shape (fst s)" "for_loop ls (\<lambda>dj. block_step cloud ratio i j di dj) t = Inr t'"
    for di t t'
    by (rule for_loop_preserves [where P = "\<lambda>u. shape (fst u) = shape (fst s)", OF _ that])
       (metis block_step_shape prod.collapse)
  show ?thesis
    by (rule for_loop_preserves [where P = "\<lambda>u. shape (fst u) = shape (fst s)", OF _ _ assms])
       (auto intro: inner)
qed

lemma pixel_step_shape:
  assumes "pixel_step cloud ratio i j nc = Inr nc'"
  shows "shape nc' = shape nc"
proof -
  from assms obtain nc0 nc1 count where
    a: "write_at nc j i zero = Inr nc0" and
    b: "for_loop [0..<ratio] (\<lambda>di. for_loop [0..<ratio] (\<lambda>dj. block_step cloud ratio i j di dj)) (nc0, 0)
          = Inr (nc1, count)" and
    c: "(0 < count \<and> (\<exists>q. write_at nc1 j i q = Inr nc')) \<or>
        (\<exists>nc2. write_at nc1 j i bad_point = Inr nc2 \<and> nc' = nc2\<lparr>is_dense := False\<rparr>)"
    by (auto simp: pixel_step_def split: sum.splits if_splits prod.splits)
  have "shape nc1 = shape nc0"
    using block_loops_shape [OF b] by simp
  moreover have "shape nc0 = shape nc"
    using a by (rule write_at_shape)
  moreover have "shape nc' = shape nc1"
    using c by (auto dest: write_at_shape simp: shape_def)
  ultimately show ?thesis by simp
qed

lemma fill_shape:
  assumes "fill ratio cloud new_cloud = Inr out"
  shows "shape out = shape new_cloud"
proof -
  have inner: "shape t' = shape new_cloud"
    if "shape t = shape new_cloud"
      "for_loop [0..<width new_cloud] (\<lambda>j. pixel_step cloud ratio i j) t = Inr t'"
    for i t t'
    by (rule for_loop_preserves [where P = "\<lambda>u. shape u = shape new_cloud", OF _ that])
       (metis pixel_step_shape)
  show ?thesis
    by (rule for_loop_preserves [where P = "\<lambda>u. shape u = shape new_cloud",
          OF _ _ assms [unfolded fill_def]])
       (auto intro: inner)
qed

text \<open>Agreement of two clouds on the region that the blocks cover.\<close>

definition agree_on_blocks :: "nat \<Rightarrow> PCLCloud3 \<Rightarrow> PCLCloud3 \<Rightarrow> bool" where
  "agree_on_blocks ratio c c' =
     (shape c' = shape c \<and> is_dense c' = is_dense c \<and>
      (\<forall>row < (height c div ratio) * ratio. \<forall>column < (width c div ratio) * ratio.
         row * width c + column < length (points c) \<longrightarrow>
         points c' ! (row * width c + column) = points c ! (row * width c + column)))"

lemma block_step_agree:
  assumes "agree_on_blocks ratio c c'" "i < height c div ratio" "j < width c div ratio"
    "di < ratio" "dj < ratio"
  shows "block_step c' ratio i j di dj s = block_step c ratio i j di dj s"
proof -
  have "Suc j * ratio \<le> (width c div ratio) * ratio"
    using assms(3) by (intro mult_le_mono1) simp
  then have col: "j * ratio + dj < (width c div ratio) * ratio"
    using assms(5) by simp
  have "Suc i * ratio \<le> (height c div ratio) * ratio"
    using assms(2) by (intro mult_le_mono1) simp
  then have row: "i * ratio + di < (height c div ratio) * ratio"
    using assms(4) by simp
  have "read_at c' (j * ratio + dj) (i * ratio + di) = read_at c (j * ratio + dj) (i * ratio + di)"
    using assms(1) row col by (auto simp: agree_on_blocks_def read_at_def shape_def)
  then show ?thesis
    by (simp add: block_step_def)
qed

lemma fill_agree:
  assumes "agree_on_blocks ratio c c'"
  shows "fill ratio c' (allocate ratio N c') = fill ratio c (allocate ratio N c)"
proof -
  have sh: "width c' = width c" "height c' = height c" "length (points c') = length (points c)"
    "is_dense c' = is_dense c"
    using assms by (simp_all add: agree_on_blocks_def shape_def)
  have px: "pixel_step c' ratio i j t = pixel_step c ratio i j t"
    if "i < height c div ratio" "j < width c div ratio" for i j t
  proof -
    have "for_loop [0..<ratio] (\<lambda>di. for_loop [0..<ratio] (\<lambda>dj. block_step c' ratio i j di dj)) u =
          for_loop [0..<ratio] (\<lambda>di. for_loop [0..<ratio] (\<lambda>dj. block_step c ratio i j di dj)) u" for u
      by (intro for_loop_cong block_step_agree [OF assms that]) simp_all
    then show ?thesis
      by (simp add: pixel_step_def cong: sum.case_cong)
  qed
  have "for_loop [0..<height c div ratio]
           (\<lambda>i. for_loop [0..<width c div ratio] (\<lambda>j. pixel_step c' ratio i j)) t =
        for_loop [0..<height c div ratio]
           (\<lambda>i. for_loop [0..<width c div ratio] (\<lambda>j. pixel_step c ratio i j)) t" for t
    by (intro for_loop_cong px) simp_all
  then show ?thesis
    by (simp add: fill_def allocate_def sh)
qed

lemma down_sample_agree:
  assumes "agree_on_blocks (nat ratio) c c'"
  shows "down_sample ratio c' = down_sample ratio c"
proof -
  have "length (points c') = length (points c)"
    using assms by (simp add: agree_on_blocks_def shape_def)
  then show ?thesis
    by (simp add: down_sample_def Let_def fill_agree [OF assms])
qed


subsection \<open>The claims about down-sampling\<close>

text \<open>The mean of a completely filled new cloud at its pixel \<open>(j, i)\<close>.\<close>

lemma filled_pixel:
  assumes h: "1 < height cloud div ratio"
    and N: "(width cloud div ratio) * (height cloud div ratio) \<le> N"
    and i: "i < height cloud div ratio" and j: "j < width cloud div ratio"
  shows "read_at (filled cloud ratio N ((width cloud div ratio) * (height cloud div ratio))) j i =
           Inr (block_mean cloud ratio i j)"
    and "finite_points (block_points cloud ratio i j) = [] \<Longrightarrow>
         \<not> is_dense (filled cloud ratio N ((width cloud div ratio) * (height cloud div ratio)))"
proof -
  let ?w = "width cloud div ratio"
  let ?h = "height cloud div ratio"
  let ?out = "filled cloud ratio N (?w * ?h)"
  let ?k = "i * ?w + j"
  have "Suc i * ?w \<le> ?h * ?w"
    using i by (intro mult_le_mono1) simp
  then have k: "?k < ?w * ?h"
    using j by (simp add: mult.commute)
  with N have kN: "?k < N"
    by simp
  have dm: "?k div ?w = i" "?k mod ?w = j"
    using j by simp_all
  show "read_at ?out j i = Inr (block_mean cloud ratio i j)"
    using h k kN dm by (simp add: read_at_def filled_def Let_def)
  show "\<not> is_dense ?out" if e: "finite_points (block_points cloud ratio i j) = []"
  proof -
    have "\<exists>k \<in> set [0..<?w * ?h].
        finite_points (block_points cloud ratio (k div ?w) (k mod ?w)) = []"
      using e k dm by (intro bexI [of _ ?k]) simp_all
    then show ?thesis
      by (simp add: filled_def Let_def list_all_iff)
  qed
qed






lemma upt_2: "[0..<2] = [0, 1]"
  by (simp add: upt_rec)


text \<open>
  C9 fails as stated. A 640 by 480 cloud, ratio 65537: the product \<^verbatim>\<open>ratio_ * ratio_\<close>
  wraps to 131073, so that the new cloud, of width and height zero, stores 2 points, whereas
  the size divided by the square of the ratio is zero.
\<close>

definition cloud_640x480 :: PCLCloud3 where
  "cloud_640x480 = \<lparr>width = 640, height = 480, is_dense = True,
      points = replicate 307200 (PCLPoint3 1 1 1)\<rparr>"

theorem addData_overflow_counterexample:
  "addData_depth 65537 cloud_640x480 =
     Inr \<lparr>width = 0, height = 0, is_dense = True, points = [zero, zero]\<rparr> \<and>
   length (points cloud_640x480) div (65537 * 65537) = 0"
  by (simp add: addData_depth_def down_sample_def int_times_def size_t_of_int_def fill_def
      allocate_def cloud_640x480_def numeral_2_eq_2)

text \<open>
  C9, as amended. For a ratio from 2 to 46340 (the ratios whose square fits an \<^verbatim>\<open>int\<close>), the
  new cloud has width \<open>width div ratio\<close>, height \<open>height div ratio\<close> and
  \<open>size div (ratio * ratio)\<close> stored points, which is at least \<open>width * height\<close> of the new
  cloud and can be more; and the result depends only on the input pixels in the rows below
  \<open>(height div ratio) * ratio\<close> and the columns below \<open>(width div ratio) * ratio\<close>: two inputs
  that agree there give the same result.
\<close>

theorem addData_sizes:
  assumes "representable cloud" and "1 < ratio" and "ratio \<le> 46340"
  shows "(\<forall>out. addData_depth ratio cloud = Inr out \<longrightarrow>
            width out = width cloud div nat ratio \<and>
            height out = height cloud div nat ratio \<and>
            length (points out) = length (points cloud) div (nat ratio * nat ratio) \<and>
            (length (points cloud) = width cloud * height cloud \<longrightarrow>
               width out * height out \<le> length (points out))) \<and>
         (\<forall>cloud'. agree_on_blocks (nat ratio) cloud cloud' \<longrightarrow>
            addData_depth ratio cloud' = addData_depth ratio cloud)"
proof (intro conjI allI impI)
  fix out
  assume "addData_depth ratio cloud = Inr out"
  then have "fill (nat ratio) cloud
      (allocate (nat ratio) (length (points cloud) div (nat ratio * nat ratio)) cloud) = Inr out"
    using assms by (simp add: addData_depth_def down_sample_fill)
  from fill_shape [OF this]
  show sz: "width out = width cloud div nat ratio"
    "height out = height cloud div nat ratio"
    "length (points out) = length (points cloud) div (nat ratio * nat ratio)"
    by (simp_all add: shape_def allocate_def)
  assume "length (points cloud) = width cloud * height cloud"
  then show "width out * height out \<le> length (points out)"
    using storage_covers_grid [of "nat ratio" "width cloud" "height cloud"] assms sz by simp
next
  fix cloud'
  assume "agree_on_blocks (nat ratio) cloud cloud'"
  then show "addData_depth ratio cloud' = addData_depth ratio cloud"
    using assms by (simp add: addData_depth_def down_sample_agree)
qed

text \<open>
  A 5 by 5 cloud whose point \<open>k\<close> is \<open>(k, 0, 0)\<close>, ratio 2: the new cloud is 2 by 2 with 6
  stored points; its pixel \<open>(0, 0)\<close> is the mean \<open>(3, 0, 0)\<close> of the points 0, 1, 5 and 6, its
  pixel \<open>(1, 1)\<close> is the mean \<open>(15, 0, 0)\<close> of the points 12, 13, 17 and 18, the two stored
  points after the pixels keep the value \<open>(0, 0, 0)\<close> of the allocation, and the last input
  pixel (row 4, column 4) does not matter.
\<close>

definition cloud_5x5 :: PCLCloud3 where
  "cloud_5x5 = \<lparr>width = 5, height = 5, is_dense = True,
      points = map (\<lambda>k. PCLPoint3 (real k) 0 0) [0..<25]\<rparr>"

lemma cloud_5x5_filled:
  "fill (nat 2) cloud_5x5 (allocate (nat 2) 6 cloud_5x5) = Inr (filled cloud_5x5 (nat 2) 6 4)"
proof -
  have wf: "length (points cloud_5x5) = width cloud_5x5 * height cloud_5x5"
    by (simp add: cloud_5x5_def)
  show ?thesis
    using fill_filled [OF wf, of "nat 2" 6] by (simp add: cloud_5x5_def)
qed

lemma cloud_5x5_blocks:
  "block_mean cloud_5x5 (nat 2) 0 0 = PCLPoint3 3 0 0"
  "block_mean cloud_5x5 (nat 2) 1 1 = PCLPoint3 15 0 0"
  by (simp_all add: block_mean_def block_points_def block_row_def cloud_5x5_def
      finite_points_def map_filter_def upt_2 mean_point_def sum_point_def Let_def)

theorem addData_sizes_witness:
  "representable cloud_5x5 \<and>
   (\<exists>out. addData_depth 2 cloud_5x5 = Inr out \<and> width out = 2 \<and> height out = 2 \<and>
     length (points out) = 6 \<and> width out * height out < length (points out) \<and>
     read_at out 0 0 = Inr (PCLPoint3 3 0 0) \<and> read_at out 1 1 = Inr (PCLPoint3 15 0 0) \<and>
     points out ! 4 = zero \<and> points out ! 5 = zero \<and>
     addData_depth 2 (cloud_5x5\<lparr>points := (points cloud_5x5)[24 := NonFinite]\<rparr>) = Inr out)"
proof -
  let ?out = "filled cloud_5x5 (nat 2) 6 4"
  have rp: "representable cloud_5x5"
    by (simp add: cloud_5x5_def representable_def)
  have out: "addData_depth 2 cloud_5x5 = Inr ?out"
    using cloud_5x5_filled by (simp add: addData_depth_def down_sample_fill cloud_5x5_def)
  have ag: "agree_on_blocks (nat 2) cloud_5x5
      (cloud_5x5\<lparr>points := (points cloud_5x5)[24 := NonFinite]\<rparr>)"
    by (auto simp: agree_on_blocks_def shape_def cloud_5x5_def nth_list_update)
  have r: "1 < (2::int)" "(2::int) \<le> 46340"
    by simp_all
  from addData_sizes [OF rp r] out ag
  have sz: "width ?out = 2 \<and> height ?out = 2 \<and> length (points ?out) = 6 \<and>
     addData_depth 2 (cloud_5x5\<lparr>points := (points cloud_5x5)[24 := NonFinite]\<rparr>) = Inr ?out"
    by (simp add: cloud_5x5_def)
  have wh: "width cloud_5x5 div 2 = 2" "height cloud_5x5 div 2 = 2"
    by (simp_all add: cloud_5x5_def)
  have p0: "read_at ?out 0 0 = Inr (PCLPoint3 3 0 0)"
    using filled_pixel(1) [of cloud_5x5 "nat 2" 6 0 0] cloud_5x5_blocks(1) by (simp add: wh)
  have p1: "read_at ?out 1 1 = Inr (PCLPoint3 15 0 0)"
    using filled_pixel(1) [of cloud_5x5 "nat 2" 6 1 1] cloud_5x5_blocks(2) by (simp add: wh)
  have p4: "points ?out ! 4 = zero" "points ?out ! 5 = zero"
    by (simp_all add: filled_def Let_def)
  show ?thesis
    using rp out sz p0 p1 p4 by (intro conjI exI [of _ ?out]) simp_all
qed


section \<open>The calibration object\<close>

subsection \<open>Geometry and the objects a calibration refers to\<close>

type_synonym Vector3 = "Scalar \<times> Scalar \<times> Scalar"

type_synonym Point2 = "Scalar \<times> Scalar"

text \<open>
  A rotation and a pose as the code builds them: from an angle and an axis, or from the four
  numbers \<open>w x y z\<close> of a quaternion; \<open>Pose t r\<close> is the product \<^verbatim>\<open>translation * rotation\<close>.
\<close>

datatype Rotation = AngleAxis Scalar Vector3 | Quaternion Scalar Scalar Scalar Scalar

datatype Pose = Pose Vector3 Rotation

record Plane =
  normal :: Vector3
  offset :: Scalar

text \<open>A plane fitted to depth points: the plane, the indices of its inliers, the deviation.\<close>

record PlaneInfo =
  plane :: Plane
  indices :: "nat list"
  std_dev :: Scalar

text \<open>
  A checkerboard: its corners in board coordinates, its pose in the frame of its parent and
  its centre in that frame.
\<close>

record Checkerboard =
  corners :: "Vector3 list"
  cb_pose :: Pose
  center :: Vector3

text \<open>An image: a matrix of pixel values that the calibration code never inspects.\<close>

datatype Image = Image "nat list list"

text \<open>
  A frame record. The two sensors are held by pointer: they are the sensors of the
  calibration object and are not copied into the record.
\<close>

record RGBDData =
  data_id :: nat
  colorData :: Image
  depthData :: PCLCloud3

text \<open>
  The views of one checkerboard in one frame: the board, the board posed in the colour frame,
  the detected image corners (\<^verbatim>\<open>colorView()->points()\<close>) and the plane fitted in the depth
  cloud (\<^verbatim>\<open>depthPlane()\<close>, \<^verbatim>\<open>depthView()->points()\<close>), absent while no plane has been fitted.
\<close>

record CheckerboardViews =
  view_id :: string
  view_data :: RGBDData
  checkerboard :: Checkerboard
  colorCheckerboard :: Checkerboard
  colorView :: "Point2 list"
  depthPlane :: "PlaneInfo option"

text \<open>\<^verbatim>\<open>DepthUndistortionEstimation::DepthData\<close>: the fields that the calibration code reads.\<close>

record DepthData =
  cloud :: PCLCloud3
  undistorted_cloud :: PCLCloud3
  estimated_plane :: PlaneInfo
  plane_extracted :: bool

record PinholeSensor =
  color_pose :: Pose
  color_parent :: "string option"

text \<open>
  The depth sensor: the coefficients of its depth error function and the entries
  \<open>K(0,0)\<close>, \<open>K(1,1)\<close>, \<open>K(0,2)\<close>, \<open>K(1,2)\<close> of its intrinsic matrix.
\<close>

record KinectDepthSensor =
  depthErrorFunction :: "Scalar list"
  intrinsicMatrix :: "Scalar \<times> Scalar \<times> Scalar \<times> Scalar"

text \<open>The local model: a bin size and one coefficient vector per bin, absent where unavailable.\<close>

record LocalModel =
  binSize :: "nat \<times> nat"
  bins :: "Scalar list option list"

text \<open>
  The global model: a 2 by 2 grid of coefficient vectors. The cells \<open>(0, 0)\<close>, \<open>(0, 1)\<close> and
  \<open>(1, 0)\<close> are the first three in memory and \<open>(1, 1)\<close> is the last.
\<close>

record GlobalModel =
  imageSize :: "nat \<times> nat"
  polynomial_0_0 :: "Scalar list"
  polynomial_0_1 :: "Scalar list"
  polynomial_1_0 :: "Scalar list"
  polynomial_1_1 :: "Scalar list"

text \<open>
  \<^verbatim>\<open>LocalMatrixPCL\<close> and \<^verbatim>\<open>GlobalMatrixPCL\<close> wrap a pointer to the model they were made for,
  which is the model of the calibration object.
\<close>

datatype MatrixPCL = MatrixPCL

record DepthUndistortionEstimation =
  est_depthErrorFunction :: "Scalar list"
  maxThreads :: nat

text \<open>Calls to the collaborators of the calibration, in the order in which they are made.\<close>

datatype event =
    Extract nat
  | ExtractAll
  | AddDepthData nat
  | EstimateLocalModel
  | EstimateLocalModelReverse
  | EstimateGlobalModel
  | PlaneBasedExtrinsicCalibration nat
  | SolveTransform
  | SolveAll

text \<open>
  The members of \<^verbatim>\<open>class Calibration\<close> (the trailing underscore of their names is dropped;
  \<^verbatim>\<open>estimate_initial_trasform_\<close> is spelled as in the source). Shared pointers are options.
  The \<^verbatim>\<open>DepthData\<close> objects live in \<open>depth_data_heap\<close> and \<open>depth_data_vec\<close> holds their
  addresses, since the estimation object changes them behind the vector. Two fields are not
  members: \<open>rand_calls\<close> counts the calls of \<^verbatim>\<open>rand ()\<close> so far and \<open>trace\<close> records the calls
  to collaborators.
\<close>

record Calibration =
  color_sensor :: PinholeSensor
  depth_sensor :: KinectDepthSensor
  cb_vec :: "Checkerboard list"
  estimate_depth_und_model :: bool
  estimate_initial_trasform :: bool
  ratio :: int
  local_model :: "LocalModel option"
  global_model :: "GlobalModel option"
  local_matrix :: "MatrixPCL option"
  global_matrix :: "MatrixPCL option"
  depth_undistortion_estimation :: "DepthUndistortionEstimation option"
  data_vec :: "RGBDData list"
  cb_views_vec :: "CheckerboardViews option list"
  depth_data_vec :: "nat list"
  depth_data_heap :: "DepthData list"
  depth_intrinsics :: "Scalar list"
  rand_calls :: nat
  trace :: "event list"

subsection \<open>Setters with a precondition\<close>

text \<open>\<^verbatim>\<open>setDownSampleRatio\<close>: \<^verbatim>\<open>assert (ratio > 0); ratio_ = ratio;\<close>\<close>

definition setDownSampleRatio :: "int \<Rightarrow> Calibration \<Rightarrow> error + Calibration" where
  "setDownSampleRatio r s = (if 0 < r then Inr (s\<lparr>ratio := r\<rparr>) else Inl AssertionFailed)"

definition setLocalModel :: "LocalModel option \<Rightarrow> Calibration \<Rightarrow> Calibration" where
  "setLocalModel model s = s\<lparr>local_model := model, local_matrix := Some MatrixPCL\<rparr>"

definition setGlobalModel :: "GlobalModel option \<Rightarrow> Calibration \<Rightarrow> Calibration" where
  "setGlobalModel model s = s\<lparr>global_model := model, global_matrix := Some MatrixPCL\<rparr>"

text \<open>
  \<^verbatim>\<open>initDepthUndistortionModel\<close>: \<^verbatim>\<open>assert (local_matrix_ and global_matrix_)\<close>, then the flag
  is set and a new estimation object is made with the depth error function of the depth
  sensor, the two models and 8 threads.
\<close>

definition initDepthUndistortionModel :: "Calibration \<Rightarrow> error + Calibration" where
  "initDepthUndistortionModel s =
     (if local_matrix s \<noteq> None \<and> global_matrix s \<noteq> None then
        Inr (s\<lparr>estimate_depth_und_model := True,
               depth_undistortion_estimation :=
                 Some \<lparr>est_depthErrorFunction = depthErrorFunction (depth_sensor s),
                       maxThreads = 8\<rparr>\<rparr>)
      else Inl AssertionFailed)"

text \<open>
  A calibration object as \<^verbatim>\<open>boost::make_shared<Calibration> ()\<close> makes it: every pointer
  empty, every vector empty, numbers zero and flags false. The sensors are given.
\<close>

definition new_Calibration :: "PinholeSensor \<Rightarrow> KinectDepthSensor \<Rightarrow> Calibration" where
  "new_Calibration color depth =
     \<lparr>color_sensor = color, depth_sensor = depth, cb_vec = [],
      estimate_depth_und_model = False, estimate_initial_trasform = False, ratio = 0,
      local_model = None, global_model = None, local_matrix = None, global_matrix = None,
      depth_undistortion_estimation = None, data_vec = [], cb_views_vec = [],
      depth_data_vec = [], depth_data_heap = [], depth_intrinsics = [],
      rand_calls = 0, trace = []\<rparr>"

text \<open>Two sensors for the examples.\<close>

definition example_color :: PinholeSensor where
  "example_color = \<lparr>color_pose = Pose (0, 0, 0) (Quaternion 1 0 0 0), color_parent = None\<rparr>"

definition example_depth :: KinectDepthSensor where
  "example_depth = \<lparr>depthErrorFunction = [0, 0, 1], intrinsicMatrix = (500, 500, 160, 120)\<rparr>"

text \<open>
  C8. \<^verbatim>\<open>setDownSampleRatio\<close> fails its assertion for every ratio that is not positive and
  stores every ratio from one on; \<^verbatim>\<open>initDepthUndistortionModel\<close> fails its assertion
  whenever the local or the global model has not been set, and otherwise turns the
  estimation of the undistortion model on.
\<close>

theorem contract_violations:
  "(r \<le> 0 \<longrightarrow> setDownSampleRatio r s = Inl AssertionFailed) \<and>
   (1 \<le> r \<longrightarrow> setDownSampleRatio r s = Inr (s\<lparr>ratio := r\<rparr>)) \<and>
   (local_matrix s = None \<or> global_matrix s = None \<longrightarrow>
      initDepthUndistortionModel s = Inl AssertionFailed) \<and>
   initDepthUndistortionModel (new_Calibration color depth) = Inl AssertionFailed \<and>
   initDepthUndistortionModel (setLocalModel lm (new_Calibration color depth)) = Inl AssertionFailed \<and>
   initDepthUndistortionModel (setGlobalModel gm (new_Calibration color depth)) = Inl AssertionFailed \<and>
   (\<exists>s'. initDepthUndistortionModel (setGlobalModel gm (setLocalModel lm s)) = Inr s' \<and>
      estimate_depth_und_model s')"
  by (simp add: setDownSampleRatio_def initDepthUndistortionModel_def setLocalModel_def
      setGlobalModel_def new_Calibration_def)

theorem contract_violations_witness:
  "setDownSampleRatio 0 (new_Calibration example_color example_depth) = Inl AssertionFailed \<and>
   setDownSampleRatio (- 3) (new_Calibration example_color example_depth) = Inl AssertionFailed \<and>
   setDownSampleRatio 1 (new_Calibration example_color example_depth) =
     Inr ((new_Calibration example_color example_depth)\<lparr>ratio := 1\<rparr>) \<and>
   initDepthUndistortionModel (new_Calibration example_color example_depth) = Inl AssertionFailed"
  using contract_violations [of 0 "new_Calibration example_color example_depth"]
    contract_violations [of "- 3" "new_Calibration example_color example_depth"]
    contract_violations [of 1 "new_Calibration example_color example_depth"]
  by simp

section \<open>Collaborators of the calibration\<close>

subsection \<open>The distance constraint on checkerboards\<close>

text \<open>
  \<^verbatim>\<open>CheckerboardDistanceConstraint\<close>: a checkerboard is valid when its centre is at most
  \<open>distance\<close> away from the point \<^verbatim>\<open>from_\<close>, which is the origin unless given.
\<close>

record CheckerboardDistanceConstraint =
  distance :: Scalar
  from_point :: Vector3

fun minus3 :: "Vector3 \<Rightarrow> Vector3 \<Rightarrow> Vector3" where
  "minus3 (x, y, z) (a, b, c) = (x - a, y - b, z - c)"

fun norm3 :: "Vector3 \<Rightarrow> Scalar" where
  "norm3 (x, y, z) = sqrt (x * x + y * y + z * z)"

definition isValid :: "CheckerboardDistanceConstraint \<Rightarrow> Checkerboard \<Rightarrow> bool" where
  "isValid c cb = (norm3 (minus3 (center cb) (from_point c)) \<le> distance c)"

subsection \<open>The estimation object, the solver and the other collaborators\<close>

text \<open>
  What the three phases of \<^verbatim>\<open>DepthUndistortionEstimation\<close> can reach through the pointers
  they hold: the \<^verbatim>\<open>DepthData\<close> objects and the two models.
\<close>

record estimation_state =
  est_heap :: "DepthData list"
  est_local_model :: "LocalModel option"
  est_global_model :: "GlobalModel option"

text \<open>
  The least-squares problem handed to the solver. A parameter block is named by what it
  holds: the pose of the colour sensor (one block of six numbers in the transform-only
  mode; a quaternion block and a translation block in the full mode), the first three cells
  of the global model, the pose of the checkerboard of view \<open>i\<close>, and the correction of the
  depth intrinsics.
\<close>

datatype block_id = TransformBlock | TranslationBlock | GlobalBlock | ViewBlock nat | ViewTranslationBlock nat | DeltaBlock

datatype linear_solver_type = SPARSE_SCHUR | SPARSE_NORMAL_CHOLESKY

datatype loss_function = CauchyLoss Scalar

record Options =
  linear_solver_type :: linear_solver_type
  max_num_iterations :: nat
  minimizer_progress_to_stdout :: bool
  num_threads :: nat

record ResidualBlock =
  cost_function :: "Scalar list list \<Rightarrow> Scalar list"
  num_residuals :: nat
  loss :: "loss_function option"
  parameter_blocks :: "block_id list"

record Problem =
  residual_blocks :: "ResidualBlock list"
  quaternion_blocks :: "block_id list"

text \<open>
  The collaborators whose code is outside the embedded source files are parameters of the
  embedding: the random number generator, checkerboard detection, the three phases of the
  estimation of the undistortion model, the plane-based calibration, the conversions and
  transformations of the geometry library, the projection of the colour camera, the
  evaluation of the depth error polynomial, the depth-distortion residual (which no
  statement below looks into), the nonlinear solver and the linear solver, and the degrees
  of the polynomials of the global model. The theorems hold for all of them; the only
  property of a collaborator that a theorem assumes is that the linear solver returns a
  solution of a linear system that has one.
\<close>

record externals =
  rand :: "nat \<Rightarrow> nat"
  detect :: "Checkerboard list \<Rightarrow> RGBDData \<Rightarrow> CheckerboardViews option"
  extractAll :: "Pose \<Rightarrow> Checkerboard list \<Rightarrow> RGBDData list \<Rightarrow>
     CheckerboardViews option list \<Rightarrow> CheckerboardViews option list"
  transform_checkerboard :: "Checkerboard \<Rightarrow> Pose \<Rightarrow> Checkerboard"
  addDepthData :: "PCLCloud3 \<Rightarrow> Checkerboard \<Rightarrow> DepthData"
  estimateLocalModel :: "estimation_state \<Rightarrow> estimation_state"
  estimateLocalModelReverse :: "estimation_state \<Rightarrow> estimation_state"
  estimateGlobalModel :: "estimation_state \<Rightarrow> estimation_state"
  setPlaneInliers :: "CheckerboardViews \<Rightarrow> PlaneInfo \<Rightarrow> CheckerboardViews"
  setPlaneInliers_indices :: "CheckerboardViews \<Rightarrow> nat list \<Rightarrow> Scalar \<Rightarrow> CheckerboardViews"
  plane_calibration :: "(Checkerboard \<times> PlaneInfo option) list \<Rightarrow>
     PinholeSensor \<times> KinectDepthSensor \<Rightarrow> PinholeSensor \<times> KinectDepthSensor"
  angle_axis_of :: "Rotation \<Rightarrow> Scalar \<times> Vector3"
  quaternion_of :: "Rotation \<Rightarrow> Scalar \<times> Scalar \<times> Scalar \<times> Scalar"
  project3dToPixel2 :: "Vector3 \<Rightarrow> Point2"
  transform_point :: "Pose \<Rightarrow> Vector3 \<Rightarrow> Vector3"
  poly_eval :: "Scalar list \<Rightarrow> Scalar \<Rightarrow> Scalar"
  distortion_residuals :: "CheckerboardViews \<Rightarrow> Scalar list list \<Rightarrow> Scalar list"
  normalized :: "Vector3 \<Rightarrow> Vector3"
  solve :: "Options \<Rightarrow> Problem \<Rightarrow> (block_id \<Rightarrow> Scalar list) \<Rightarrow> (block_id \<Rightarrow> Scalar list)"
  Degree :: nat
  MinDegree :: nat
  qr_solve :: "Scalar list list \<Rightarrow> Scalar list \<Rightarrow> Scalar list"


section \<open>Estimating the transform from planes\<close>

text \<open>
  Modelled from the spec: \<^verbatim>\<open>CheckerboardViewsExtraction::extract\<close> is defined outside the source
  files embedded here. By the specification (sections 4.1 and 6) an extraction from one frame record
  returns zero or one view, and returns it only when the detected checkerboard meets the
  constraint; the view is appended to the vector that the caller passes.
\<close>

definition extractor_extract ::
  "externals \<Rightarrow> CheckerboardDistanceConstraint \<Rightarrow> Checkerboard list \<Rightarrow> RGBDData \<Rightarrow>
   CheckerboardViews option list \<Rightarrow> CheckerboardViews option list" where
  "extractor_extract ext constraint cbs input_data views =
     (case detect ext cbs input_data of
        None \<Rightarrow> views
      | Some v \<Rightarrow> if isValid constraint (colorCheckerboard v) then views @ [Some v] else views)"

text \<open>
  \<^verbatim>\<open>Calibration::estimateTransform\<close>: every entry that is not null contributes the
  checkerboard of the colour view and the plane of the depth view, under a running index;
  the calibration is then cut to the number of pairs (\<^verbatim>\<open>setSize (index)\<close>) and performed.
\<close>

fun add_view ::
  "CheckerboardViews option \<Rightarrow> (Checkerboard \<times> PlaneInfo option) list \<times> nat \<Rightarrow>
   (Checkerboard \<times> PlaneInfo option) list \<times> nat" where
  "add_view None (pairs, index) = (pairs, index)"
| "add_view (Some v) (pairs, index) = (pairs @ [(colorCheckerboard v, depthPlane v)], index + 1)"

definition estimateTransform ::
  "externals \<Rightarrow> CheckerboardViews option list \<Rightarrow> Calibration \<Rightarrow> Calibration" where
  "estimateTransform ext views s =
     (let (pairs, index) = fold add_view views ([], 0);
          (color, depth) = plane_calibration ext (take index pairs) (color_sensor s, depth_sensor s)
      in s\<lparr>color_sensor := color, depth_sensor := depth,
           trace := trace s @ [PlaneBasedExtrinsicCalibration index]\<rparr>)"

text \<open>
  The loop of \<^verbatim>\<open>Calibration::estimateInitialTransform\<close>: at most \<^verbatim>\<open>data_vec_.size ()\<close>
  rounds, as long as fewer than 10 views have been collected; each round draws an index with
  \<^verbatim>\<open>rand () % data_vec_.size ()\<close> and extracts from that frame under the distance constraint
  \<open>2.0\<close>.
\<close>

function initial_views ::
  "externals \<Rightarrow> nat \<Rightarrow> CheckerboardViews option list \<Rightarrow> Calibration \<Rightarrow>
   CheckerboardViews option list \<times> Calibration" where
  "initial_views ext i views s =
     (if i < length (data_vec s) \<and> length views < 10 then
        (let index = rand ext (rand_calls s) mod length (data_vec s)
         in initial_views ext (Suc i)
              (extractor_extract ext \<lparr>distance = 2.0, from_point = (0, 0, 0)\<rparr> (cb_vec s) (data_vec s ! index) views)
              (s\<lparr>rand_calls := rand_calls s + 1, trace := trace s @ [Extract index]\<rparr>))
      else (views, s))"
  by pat_completeness auto
termination
  by (relation "measure (\<lambda>(ext, i, views, s). length (data_vec s) - i)") auto

definition estimateInitialTransform :: "externals \<Rightarrow> Calibration \<Rightarrow> Calibration" where
  "estimateInitialTransform ext s =
     (let (views, s') = initial_views ext 0 [] s in estimateTransform ext views s')"


subsection \<open>Facts about the plane-based estimation\<close>

definition plane_pairs :: "CheckerboardViews option list \<Rightarrow> (Checkerboard \<times> PlaneInfo option) list" where
  "plane_pairs views = map (\<lambda>v. (colorCheckerboard v, depthPlane v)) (List.map_filter id views)"

lemma plane_pairs_simps:
  "plane_pairs [] = []"
  "plane_pairs (None # views) = plane_pairs views"
  "plane_pairs (Some v # views) = (colorCheckerboard v, depthPlane v) # plane_pairs views"
  by (simp_all add: plane_pairs_def map_filter_def)

lemma fold_add_view:
  "fold add_view views (pairs, index) =
     (pairs @ plane_pairs views, index + length (plane_pairs views))"
proof (induction views arbitrary: pairs index)
  case Nil
  then show ?case by (simp add: plane_pairs_simps)
next
  case (Cons v views)
  then show ?case by (cases v) (simp_all add: plane_pairs_simps)
qed

lemma estimateTransform_plane_pairs:
  "estimateTransform ext views s =
     s\<lparr>color_sensor := fst (plane_calibration ext (plane_pairs views) (color_sensor s, depth_sensor s)),
       depth_sensor := snd (plane_calibration ext (plane_pairs views) (color_sensor s, depth_sensor s)),
       trace := trace s @ [PlaneBasedExtrinsicCalibration (length (plane_pairs views))]\<rparr>"
  by (simp add: estimateTransform_def fold_add_view split: prod.splits)

definition accepted :: "externals \<Rightarrow> Calibration \<Rightarrow> CheckerboardViews option \<Rightarrow> bool" where
  "accepted ext s v =
     (\<exists>w. v = Some w \<and> norm3 (center (colorCheckerboard w)) \<le> 2 \<and>
          (\<exists>index < length (data_vec s). detect ext (cb_vec s) (data_vec s ! index) = Some w))"

lemma minus3_origin: "minus3 v (0, 0, 0) = v"
  by (cases v) simp

lemma extract_accepted:
  assumes "\<forall>v \<in> set views. accepted ext s v" "index < length (data_vec s)"
  shows "\<forall>v \<in> set (extractor_extract ext \<lparr>distance = 2.0, from_point = (0, 0, 0)\<rparr> (cb_vec s)
            (data_vec s ! index) views). accepted ext s v"
  using assms
  by (auto simp: extractor_extract_def isValid_def minus3_origin accepted_def split: option.splits)

lemma extract_length:
  "length (extractor_extract ext c cbs d views) \<le> Suc (length views)"
  by (simp add: extractor_extract_def split: option.splits)

lemma initial_views_invariant:
  assumes "initial_views ext i views s = (views', s')"
    and "length views \<le> 10" "\<forall>v \<in> set views. accepted ext s v"
  shows "length views' \<le> 10 \<and> (\<forall>v \<in> set views'. accepted ext s v) \<and>
     (\<exists>m \<le> length (data_vec s) - i.
        s' = s\<lparr>rand_calls := rand_calls s + m,
               trace := trace s @
                 map (\<lambda>k. Extract (rand ext (rand_calls s + k) mod length (data_vec s))) [0..<m]\<rparr>)"
  using assms
proof (induction ext i views s rule: initial_views.induct)
  case (1 ext i views s)
  show ?case
  proof (cases "i < length (data_vec s) \<and> length views < 10")
    case False
    then show ?thesis
      using "1.prems" by (auto intro!: exI [of _ 0])
  next
    case True
    let ?index = "rand ext (rand_calls s) mod length (data_vec s)"
    let ?views = "extractor_extract ext \<lparr>distance = 2.0, from_point = (0, 0, 0)\<rparr> (cb_vec s)
        (data_vec s ! ?index) views"
    let ?s = "s\<lparr>rand_calls := rand_calls s + 1, trace := trace s @ [Extract ?index]\<rparr>"
    have "0 < length (data_vec s)"
      using True by linarith
    then have idx: "?index < length (data_vec s)"
      by (rule mod_less_divisor)
    have rec: "initial_views ext (Suc i) ?views ?s = (views', s')"
      using "1.prems"(1) True by (simp add: Let_def)
    have "length ?views \<le> Suc (length views)"
      by (rule extract_length)
    then have len: "length ?views \<le> 10"
      using True by linarith
    have acc: "\<forall>v \<in> set ?views. accepted ext ?s v"
      using extract_accepted [OF "1.prems"(3) idx] by (simp add: accepted_def)
    from "1.IH" [OF True refl rec len acc]
    obtain m where m: "length views' \<le> 10" "\<forall>v \<in> set views'. accepted ext ?s v"
      "m \<le> length (data_vec s) - Suc i"
      "s' = ?s\<lparr>rand_calls := rand_calls ?s + m,
               trace := trace ?s @
                 map (\<lambda>k. Extract (rand ext (rand_calls ?s + k) mod length (data_vec ?s))) [0..<m]\<rparr>"
      by auto
    have "map (\<lambda>k. Extract (rand ext (rand_calls s + k) mod length (data_vec s))) [0..<Suc m] =
          Extract ?index #
          map (\<lambda>k. Extract (rand ext (Suc (rand_calls s + k)) mod length (data_vec s))) [0..<m]"
      by (simp add: upt_conv_Cons map_Suc_upt [symmetric] del: upt_Suc)
    then have "s' = s\<lparr>rand_calls := rand_calls s + Suc m,
               trace := trace s @
                 map (\<lambda>k. Extract (rand ext (rand_calls s + k) mod length (data_vec s))) [0..<Suc m]\<rparr>"
      using m(4) by simp
    moreover have "Suc m \<le> length (data_vec s) - i"
      using m(3) True by linarith
    ultimately show ?thesis
      using m(1,2) by (auto simp: accepted_def intro!: exI [of _ "Suc m"])
  qed
qed


text \<open>
  C6. The views that \<^verbatim>\<open>estimateInitialTransform\<close> collects are at most 10; each of them is
  the view detected in some frame of the store and the centre of its checkerboard is within
  distance 2 of the origin; the frames are chosen by the successive values of
  \<^verbatim>\<open>rand ()\<close>, whatever they are, modulo the number of frames; and the collected views are
  what the plane-based transform estimation is run on.
\<close>

theorem estimateInitialTransform_views:
  assumes "initial_views ext 0 [] s = (views, s')"
  shows "length views \<le> 10 \<and>
     (\<forall>v \<in> set views. \<exists>w. v = Some w \<and>
        isValid \<lparr>distance = 2.0, from_point = (0, 0, 0)\<rparr> (colorCheckerboard w) \<and>
        norm3 (center (colorCheckerboard w)) \<le> 2 \<and>
        (\<exists>index < length (data_vec s). detect ext (cb_vec s) (data_vec s ! index) = Some w)) \<and>
     (\<exists>m \<le> length (data_vec s).
        s' = s\<lparr>rand_calls := rand_calls s + m,
               trace := trace s @
                 map (\<lambda>k. Extract (rand ext (rand_calls s + k) mod length (data_vec s))) [0..<m]\<rparr>) \<and>
     estimateInitialTransform ext s = estimateTransform ext views s' \<and>
     color_sensor (estimateInitialTransform ext s) =
       fst (plane_calibration ext (map (\<lambda>v. (colorCheckerboard (the v), depthPlane (the v))) views)
             (color_sensor s, depth_sensor s))"
proof -
  from initial_views_invariant [OF assms]
  have inv: "length views \<le> 10" "\<forall>v \<in> set views. accepted ext s v"
    "\<exists>m \<le> length (data_vec s) - 0.
        s' = s\<lparr>rand_calls := rand_calls s + m,
               trace := trace s @
                 map (\<lambda>k. Extract (rand ext (rand_calls s + k) mod length (data_vec s))) [0..<m]\<rparr>"
    by simp_all
  have "\<forall>v \<in> set views. v \<noteq> None"
    using inv(2) by (auto simp: accepted_def)
  then have pp: "plane_pairs views = map (\<lambda>v. (colorCheckerboard (the v), depthPlane (the v))) views"
    by (induction views) (auto simp: plane_pairs_simps)
  have sens: "color_sensor s' = color_sensor s" "depth_sensor s' = depth_sensor s"
    using inv(3) by auto
  have est: "estimateInitialTransform ext s = estimateTransform ext views s'"
    using assms by (simp add: estimateInitialTransform_def)
  show ?thesis
    using inv est
    by (auto simp: accepted_def isValid_def minus3_origin estimateTransform_plane_pairs pp sens)
qed

text \<open>Accessors of a pose.\<close>

section \<open>The transform-only optimization\<close>

subsection \<open>Geometry used by the residuals\<close>

fun linear :: "Pose \<Rightarrow> Rotation" where
  "linear (Pose t r) = r"

fun translation :: "Pose \<Rightarrow> Vector3" where
  "translation (Pose t r) = t"

fun scale3 :: "Scalar \<Rightarrow> Vector3 \<Rightarrow> Vector3" where
  "scale3 a (x, y, z) = (a * x, a * y, a * z)"

fun list3 :: "Vector3 \<Rightarrow> Scalar list" where
  "list3 (x, y, z) = [x, y, z]"

definition head3 :: "Scalar list \<Rightarrow> Vector3" where
  "head3 v = (v ! 0, v ! 1, v ! 2)"

definition tail3 :: "Scalar list \<Rightarrow> Vector3" where
  "tail3 v = (v ! (length v - 3), v ! (length v - 2), v ! (length v - 1))"

fun norm2 :: "Point2 \<Rightarrow> Scalar" where
  "norm2 (x, y) = sqrt (x * x + y * y)"

fun minus2 :: "Point2 \<Rightarrow> Point2 \<Rightarrow> Point2" where
  "minus2 (x, y) (a, b) = (x - a, y - b)"

fun absDistance :: "Plane \<Rightarrow> Vector3 \<Rightarrow> Scalar" where
  "absDistance pl (x, y, z) =
     (case normal pl of (a, b, c) \<Rightarrow> \<bar>a * x + b * y + c * z + offset pl\<bar>)"

fun z_of :: "Vector3 \<Rightarrow> Scalar" where
  "z_of (x, y, z) = z"

text \<open>The pose that the functors build from a 6-vector: rotation vector, then translation.\<close>

definition pose_of_angle_axis :: "externals \<Rightarrow> Scalar list \<Rightarrow> Pose" where
  "pose_of_angle_axis ext p =
     Pose (p ! 3, p ! 4, p ! 5) (AngleAxis (norm3 (head3 p)) (normalized ext (head3 p)))"

text \<open>\<^verbatim>\<open>TransformError::operator ()\<close>\<close>

definition TransformError ::
  "externals \<Rightarrow> Checkerboard \<Rightarrow> Point2 list \<Rightarrow> Plane \<Rightarrow> Scalar list \<Rightarrow>
   Scalar list \<Rightarrow> Scalar list \<Rightarrow> Scalar list \<Rightarrow> Scalar list" where
  "TransformError ext cb image_corners depth_plane depth_error_function
     color_sensor_pose checkerboard_pose residuals =
     (let color_sensor_pose_eigen = pose_of_angle_axis ext color_sensor_pose;
          checkerboard_pose_eigen = pose_of_angle_axis ext checkerboard_pose;
          cb_corners = map (transform_point ext checkerboard_pose_eigen) (corners cb);
          reprojected_corners = map (project3dToPixel2 ext) cb_corners;
          cb_corners' = map (transform_point ext color_sensor_pose_eigen) cb_corners
      in fold (\<lambda>i res.
           (res[2 * i := norm2 (minus2 (reprojected_corners ! i) (image_corners ! i)) / 0.5])
              [2 * i + 1 := absDistance depth_plane (cb_corners' ! i) /
                  poly_eval ext depth_error_function (z_of (cb_corners' ! i))])
           [0..<length cb_corners'] residuals)"

lemma fold_residuals:
  fixes f g :: "nat \<Rightarrow> Scalar"
  assumes "2 * n \<le> length res"
  shows "length (fold (\<lambda>i r. (r[2 * i := f i])[2 * i + 1 := g i]) [0..<n] res) = length res \<and>
     (\<forall>k < n. fold (\<lambda>i r. (r[2 * i := f i])[2 * i + 1 := g i]) [0..<n] res ! (2 * k) = f k \<and>
             fold (\<lambda>i r. (r[2 * i := f i])[2 * i + 1 := g i]) [0..<n] res ! (2 * k + 1) = g k)"
  using assms
proof (induction n)
  case 0
  then show ?case by simp
next
  case (Suc n)
  then show ?case
    by (auto simp: nth_list_update less_Suc_eq)
qed


text \<open>
  The residual block that \<^verbatim>\<open>optimizeTransform\<close> adds for a view: an automatically
  differentiated \<^verbatim>\<open>TransformError\<close> with \<open>2 * size\<close> residuals, a Cauchy loss of scale 1, and
  the blocks of the sensor pose and of the pose of this view.
\<close>

definition transform_residual_block ::
  "externals \<Rightarrow> Calibration \<Rightarrow> nat \<Rightarrow> CheckerboardViews \<Rightarrow> PlaneInfo \<Rightarrow> ResidualBlock" where
  "transform_residual_block ext s i v depth_plane =
     \<lparr>cost_function = (\<lambda>blocks.
         TransformError ext (checkerboard v) (colorView v) (plane depth_plane)
           (depthErrorFunction (depth_sensor s)) (blocks ! 0) (blocks ! 1)
           (replicate (2 * length (corners (checkerboard v))) 0)),
      num_residuals = 2 * length (corners (checkerboard v)),
      loss = Some (CauchyLoss 1.0),
      parameter_blocks = [TransformBlock, ViewBlock i]\<rparr>"

definition angle_axis_vector :: "externals \<Rightarrow> Pose \<Rightarrow> Scalar list" where
  "angle_axis_vector ext p =
     (case angle_axis_of ext (linear p) of (angle, axis) \<Rightarrow>
        list3 (scale3 angle axis) @ list3 (translation p))"

text \<open>
  The body of the loop of \<^verbatim>\<open>optimizeTransform\<close>. The view and its depth plane are
  dereferenced without a check.
\<close>

definition add_transform_view ::
  "externals \<Rightarrow> Calibration \<Rightarrow> CheckerboardViews option list \<Rightarrow> nat \<Rightarrow>
   Problem \<times> (block_id \<Rightarrow> Scalar list) \<Rightarrow> error + Problem \<times> (block_id \<Rightarrow> Scalar list)" where
  "add_transform_view ext s views i st =
     (case st of (problem, params) \<Rightarrow>
       (case views ! i of
          None \<Rightarrow> Inl NullPointer
        | Some v \<Rightarrow>
            (case depthPlane v of
               None \<Rightarrow> Inl NullPointer
             | Some depth_plane \<Rightarrow>
                 Inr (problem\<lparr>residual_blocks := residual_blocks problem @
                                [transform_residual_block ext s i v depth_plane]\<rparr>,
                      params(ViewBlock i := angle_axis_vector ext (cb_pose (colorCheckerboard v)))))))"

definition transform_problem ::
  "externals \<Rightarrow> CheckerboardViews option list \<Rightarrow> Calibration \<Rightarrow>
   error + Problem \<times> (block_id \<Rightarrow> Scalar list)" where
  "transform_problem ext views s =
     for_loop [0..<length views] (add_transform_view ext s views)
       (\<lparr>residual_blocks = [], quaternion_blocks = []\<rparr>,
        (\<lambda>b. [])(TransformBlock := angle_axis_vector ext (color_pose (color_sensor s))))"

definition transform_options :: Options where
  "transform_options =
     \<lparr>linear_solver_type = SPARSE_SCHUR, max_num_iterations = 100,
      minimizer_progress_to_stdout = True, num_threads = 8\<rparr>"

text \<open>
  \<^verbatim>\<open>Calibration::optimizeTransform\<close>: build the problem, solve, and set the pose of the
  colour sensor from the refined block of the sensor. The matrix of the poses of the views
  is local.
\<close>

definition optimizeTransform ::
  "externals \<Rightarrow> CheckerboardViews option list \<Rightarrow> Calibration \<Rightarrow> error + Calibration" where
  "optimizeTransform ext views s =
     (case transform_problem ext views s of
        Inl e \<Rightarrow> Inl e
      | Inr (problem, params) \<Rightarrow>
          (let transform = solve ext transform_options problem params TransformBlock;
               rotation = AngleAxis (norm3 (head3 transform)) (normalized ext (head3 transform))
           in Inr (s\<lparr>color_sensor := (color_sensor s)\<lparr>color_pose := Pose (tail3 transform) rotation\<rparr>,
                     trace := trace s @ [SolveTransform]\<rparr>)))"

subsection \<open>The problem that is built\<close>

lemma add_transform_view_Some:
  assumes "views ! i = Some v" "depthPlane v = Some d"
  shows "add_transform_view ext s views i (p, q) =
     Inr (p\<lparr>residual_blocks := residual_blocks p @ [transform_residual_block ext s i v d]\<rparr>,
          q(ViewBlock i := angle_axis_vector ext (cb_pose (colorCheckerboard v))))"
  using assms by (simp add: add_transform_view_def)

lemma transform_problem_blocks:
  assumes "\<And>i. i < n \<Longrightarrow> \<exists>v d. views ! i = Some v \<and> depthPlane v = Some d"
  shows "\<exists>p q. for_loop [0..<n] (add_transform_view ext s views) (p0, q0) = Inr (p, q) \<and>
      quaternion_blocks p = quaternion_blocks p0 \<and>
      residual_blocks p = residual_blocks p0 @
        map (\<lambda>i. transform_residual_block ext s i (the (views ! i)) (the (depthPlane (the (views ! i)))))
          [0..<n]"
  using assms
proof (induction n)
  case 0
  then show ?case by simp
next
  case (Suc n)
  have "\<exists>v d. views ! i = Some v \<and> depthPlane v = Some d" if "i < n" for i
    using Suc.prems [of i] that by simp
  from Suc.IH [OF this] obtain p q where
    st: "for_loop [0..<n] (add_transform_view ext s views) (p0, q0) = Inr (p, q)"
    "quaternion_blocks p = quaternion_blocks p0"
    "residual_blocks p = residual_blocks p0 @
        map (\<lambda>i. transform_residual_block ext s i (the (views ! i)) (the (depthPlane (the (views ! i)))))
          [0..<n]"
    by blast
  obtain v d where v: "views ! n = Some v" "depthPlane v = Some d"
    using Suc.prems [of n] by auto
  have "for_loop [0..<Suc n] (add_transform_view ext s views) (p0, q0) =
      add_transform_view ext s views n (p, q)"
    using st(1) by (simp add: for_loop_append split: sum.splits)
  then show ?case
    unfolding add_transform_view_Some [OF v]
    using st(2,3) v by simp
qed

lemma for_loop_step_succeeds:
  assumes "for_loop ks body s = Inr s'" "k \<in> set ks"
  shows "\<exists>t t'. body k t = Inr t'"
  using assms
proof (induction ks arbitrary: s)
  case Nil
  then show ?case by simp
next
  case (Cons a ks)
  from Cons.prems(1) obtain t where t: "body a s = Inr t" "for_loop ks body t = Inr s'"
    by (auto split: sum.splits)
  show ?case
  proof (cases "k = a")
    case True
    with t(1) show ?thesis by blast
  next
    case False
    with Cons.prems(2) have "k \<in> set ks" by simp
    from Cons.IH [OF t(2) this] show ?thesis .
  qed
qed

lemma transform_problem_views:
  assumes "transform_problem ext views s = Inr st" "i < length views"
  shows "\<exists>v d. views ! i = Some v \<and> depthPlane v = Some d"
proof -
  have "i \<in> set [0..<length views]"
    using assms(2) by simp
  from for_loop_step_succeeds [OF assms(1) [unfolded transform_problem_def] this]
  obtain t t' where "add_transform_view ext s views i t = Inr t'"
    by blast
  then show ?thesis
    by (cases t) (auto simp: add_transform_view_def split: option.splits)
qed


lemma fold_update_length:
  "length (fold (\<lambda>i r. (r[a i := f i])[b i := g i]) xs res) = length res"
  by (induction xs arbitrary: res) simp_all

lemma TransformError_length:
  "length (TransformError ext cb image_corners depth_plane def t c residuals) = length residuals"
  by (simp add: TransformError_def Let_def fold_update_length)

lemma TransformError_components:
  assumes "k < length (corners cb)" "2 * length (corners cb) \<le> length residuals"
  shows "length (TransformError ext cb image_corners depth_plane def t c residuals) = length residuals \<and>
     TransformError ext cb image_corners depth_plane def t c residuals ! (2 * k) =
       norm2 (minus2 (project3dToPixel2 ext (transform_point ext (pose_of_angle_axis ext c) (corners cb ! k)))
                (image_corners ! k)) / 0.5 \<and>
     TransformError ext cb image_corners depth_plane def t c residuals ! (2 * k + 1) =
       absDistance depth_plane
         (transform_point ext (pose_of_angle_axis ext t)
            (transform_point ext (pose_of_angle_axis ext c) (corners cb ! k))) /
       poly_eval ext def
         (z_of (transform_point ext (pose_of_angle_axis ext t)
            (transform_point ext (pose_of_angle_axis ext c) (corners cb ! k))))"
proof -
  let ?cb_corners = "map (transform_point ext (pose_of_angle_axis ext c)) (corners cb)"
  let ?reprojected = "map (project3dToPixel2 ext) ?cb_corners"
  let ?cb_corners' = "map (transform_point ext (pose_of_angle_axis ext t)) ?cb_corners"
  let ?f = "\<lambda>i. norm2 (minus2 (?reprojected ! i) (image_corners ! i)) / 0.5"
  let ?g = "\<lambda>i. absDistance depth_plane (?cb_corners' ! i) / poly_eval ext def (z_of (?cb_corners' ! i))"
  have eq: "TransformError ext cb image_corners depth_plane def t c residuals =
      fold (\<lambda>i r. (r[2 * i := ?f i])[2 * i + 1 := ?g i]) [0..<length (corners cb)] residuals"
    by (simp add: TransformError_def Let_def)
  from fold_residuals [OF assms(2), of ?f ?g] assms(1)
  have "length (fold (\<lambda>i r. (r[2 * i := ?f i])[2 * i + 1 := ?g i]) [0..<length (corners cb)] residuals)
          = length residuals"
    and "fold (\<lambda>i r. (r[2 * i := ?f i])[2 * i + 1 := ?g i]) [0..<length (corners cb)] residuals ! (2 * k)
          = ?f k"
    and "fold (\<lambda>i r. (r[2 * i := ?f i])[2 * i + 1 := ?g i]) [0..<length (corners cb)] residuals ! (2 * k + 1)
          = ?g k"
    by blast+
  then show ?thesis
    unfolding eq using assms(1) by simp
qed

text \<open>
  C4. When \<^verbatim>\<open>optimizeTransform\<close> has built its problem, the problem has one residual block
  per view, of size twice the number of corners of the checkerboard, with a Cauchy loss and
  the blocks of the sensor pose and of the view; for candidate poses \<open>t\<close> (sensor) and \<open>c\<close>
  (checkerboard), component \<open>2 k\<close> is the distance in the image between corner \<open>k\<close>,
  projected under \<open>c\<close>, and the detected corner, divided by 0.5, and component \<open>2 k + 1\<close> is
  the absolute distance of the corner, moved into the depth frame, to the depth plane,
  divided by the depth error polynomial at the depth of the corner. The solver is the sparse
  Schur solver with at most 100 iterations, and the pose of the colour sensor is set from
  its result.
\<close>

theorem optimizeTransform_problem:
  assumes "transform_problem ext views s = Inr (problem, params)"
  shows "length (residual_blocks problem) = length views \<and>
     (\<forall>i < length views. \<exists>v d. views ! i = Some v \<and> depthPlane v = Some d \<and>
        num_residuals (residual_blocks problem ! i) = 2 * length (corners (checkerboard v)) \<and>
        loss (residual_blocks problem ! i) = Some (CauchyLoss 1) \<and>
        parameter_blocks (residual_blocks problem ! i) = [TransformBlock, ViewBlock i] \<and>
        (\<forall>t c. length (cost_function (residual_blocks problem ! i) [t, c]) =
                  2 * length (corners (checkerboard v)) \<and>
           (\<forall>k < length (corners (checkerboard v)).
              cost_function (residual_blocks problem ! i) [t, c] ! (2 * k) =
                norm2 (minus2
                  (project3dToPixel2 ext
                     (transform_point ext (pose_of_angle_axis ext c) (corners (checkerboard v) ! k)))
                  (colorView v ! k)) / 0.5 \<and>
              cost_function (residual_blocks problem ! i) [t, c] ! (2 * k + 1) =
                absDistance (plane d)
                  (transform_point ext (pose_of_angle_axis ext t)
                     (transform_point ext (pose_of_angle_axis ext c) (corners (checkerboard v) ! k))) /
                poly_eval ext (depthErrorFunction (depth_sensor s))
                  (z_of (transform_point ext (pose_of_angle_axis ext t)
                     (transform_point ext (pose_of_angle_axis ext c) (corners (checkerboard v) ! k))))))) \<and>
     linear_solver_type transform_options = SPARSE_SCHUR \<and>
     max_num_iterations transform_options = 100 \<and>
     (\<exists>s'. optimizeTransform ext views s = Inr s' \<and>
        color_pose (color_sensor s') =
          Pose (tail3 (solve ext transform_options problem params TransformBlock))
            (AngleAxis (norm3 (head3 (solve ext transform_options problem params TransformBlock)))
               (normalized ext (head3 (solve ext transform_options problem params TransformBlock)))))"
proof -
  have views: "\<exists>v d. views ! i = Some v \<and> depthPlane v = Some d" if "i < length views" for i
    using transform_problem_views [OF assms that] .
  from transform_problem_blocks [of "length views" views ext s
      "\<lparr>residual_blocks = [], quaternion_blocks = []\<rparr>"
      "(\<lambda>b. [])(TransformBlock := angle_axis_vector ext (color_pose (color_sensor s)))"] views assms
  have blocks: "residual_blocks problem =
      map (\<lambda>i. transform_residual_block ext s i (the (views ! i)) (the (depthPlane (the (views ! i)))))
        [0..<length views]"
    by (auto simp: transform_problem_def)
  have block: "\<exists>v d. views ! i = Some v \<and> depthPlane v = Some d \<and>
      residual_blocks problem ! i = transform_residual_block ext s i v d" if "i < length views" for i
    using views [OF that] that by (auto simp: blocks)
  have per_view: "\<exists>v d. views ! i = Some v \<and> depthPlane v = Some d \<and>
        num_residuals (residual_blocks problem ! i) = 2 * length (corners (checkerboard v)) \<and>
        loss (residual_blocks problem ! i) = Some (CauchyLoss 1) \<and>
        parameter_blocks (residual_blocks problem ! i) = [TransformBlock, ViewBlock i] \<and>
        (\<forall>t c. length (cost_function (residual_blocks problem ! i) [t, c]) =
                  2 * length (corners (checkerboard v)) \<and>
           (\<forall>k < length (corners (checkerboard v)).
              cost_function (residual_blocks problem ! i) [t, c] ! (2 * k) =
                norm2 (minus2
                  (project3dToPixel2 ext
                     (transform_point ext (pose_of_angle_axis ext c) (corners (checkerboard v) ! k)))
                  (colorView v ! k)) / 0.5 \<and>
              cost_function (residual_blocks problem ! i) [t, c] ! (2 * k + 1) =
                absDistance (plane d)
                  (transform_point ext (pose_of_angle_axis ext t)
                     (transform_point ext (pose_of_angle_axis ext c) (corners (checkerboard v) ! k))) /
                poly_eval ext (depthErrorFunction (depth_sensor s))
                  (z_of (transform_point ext (pose_of_angle_axis ext t)
                     (transform_point ext (pose_of_angle_axis ext c) (corners (checkerboard v) ! k))))))"
    if i: "i < length views" for i
  proof -
    from block [OF i] obtain v d where v: "views ! i = Some v" "depthPlane v = Some d"
      "residual_blocks problem ! i = transform_residual_block ext s i v d"
      by blast
    have len: "length (cost_function (transform_residual_block ext s i v d) [t, c]) =
        2 * length (corners (checkerboard v))" for t c
      by (simp add: transform_residual_block_def TransformError_length)
    have comp: "cost_function (transform_residual_block ext s i v d) [t, c] ! (2 * k) =
                norm2 (minus2
                  (project3dToPixel2 ext
                     (transform_point ext (pose_of_angle_axis ext c) (corners (checkerboard v) ! k)))
                  (colorView v ! k)) / 0.5 \<and>
              cost_function (transform_residual_block ext s i v d) [t, c] ! (2 * k + 1) =
                absDistance (plane d)
                  (transform_point ext (pose_of_angle_axis ext t)
                     (transform_point ext (pose_of_angle_axis ext c) (corners (checkerboard v) ! k))) /
                poly_eval ext (depthErrorFunction (depth_sensor s))
                  (z_of (transform_point ext (pose_of_angle_axis ext t)
                     (transform_point ext (pose_of_angle_axis ext c) (corners (checkerboard v) ! k))))"
      if k: "k < length (corners (checkerboard v))" for t c k
      using TransformError_components [OF k, of "replicate (2 * length (corners (checkerboard v))) 0"
          ext "colorView v" "plane d" "depthErrorFunction (depth_sensor s)" t c]
      by (simp add: transform_residual_block_def)
    have hd: "num_residuals (transform_residual_block ext s i v d) = 2 * length (corners (checkerboard v))"
      "loss (transform_residual_block ext s i v d) = Some (CauchyLoss 1)"
      "parameter_blocks (transform_residual_block ext s i v d) = [TransformBlock, ViewBlock i]"
      by (simp_all add: transform_residual_block_def)
    show ?thesis
      unfolding v(3) using v(1,2) hd len comp by blast
  qed
  have n: "length (residual_blocks problem) = length views"
    by (simp add: blocks)
  have opt: "linear_solver_type transform_options = SPARSE_SCHUR"
    "max_num_iterations transform_options = 100"
    by (simp_all add: transform_options_def)
  have run: "\<exists>s'. optimizeTransform ext views s = Inr s' \<and>
        color_pose (color_sensor s') =
          Pose (tail3 (solve ext transform_options problem params TransformBlock))
            (AngleAxis (norm3 (head3 (solve ext transform_options problem params TransformBlock)))
               (normalized ext (head3 (solve ext transform_options problem params TransformBlock))))"
    using assms by (simp add: optimizeTransform_def Let_def)
  show ?thesis
    using n per_view opt run by blast
qed

text \<open>
  C10. A successful \<^verbatim>\<open>optimizeTransform\<close> changes the pose of the colour sensor and nothing
  else of the calibration (the record of calls apart): the views, the frames, the depth
  sensor, the depth intrinsics, the two models and the depth data are as before, whether
  or not the views passed are the views of the calibration. The new pose is made from the
  refined block of the sensor alone; the refined poses of the views are not used.
\<close>

theorem optimizeTransform_frame:
  assumes "optimizeTransform ext views s = Inr s'"
  shows "cb_views_vec s' = cb_views_vec s \<and> data_vec s' = data_vec s \<and>
     depth_sensor s' = depth_sensor s \<and> depth_intrinsics s' = depth_intrinsics s \<and>
     local_model s' = local_model s \<and> global_model s' = global_model s \<and>
     depth_data_heap s' = depth_data_heap s \<and>
     color_parent (color_sensor s') = color_parent (color_sensor s) \<and>
     (\<exists>problem params.
        transform_problem ext views s = Inr (problem, params) \<and>
        s' = s\<lparr>color_sensor := (color_sensor s)
                 \<lparr>color_pose :=
                    Pose (tail3 (solve ext transform_options problem params TransformBlock))
                      (AngleAxis (norm3 (head3 (solve ext transform_options problem params TransformBlock)))
                         (normalized ext (head3 (solve ext transform_options problem params TransformBlock))))\<rparr>,
               trace := trace s @ [SolveTransform]\<rparr>)"
  using assms by (auto simp: optimizeTransform_def Let_def split: sum.splits)


section \<open>The full optimization\<close>

subsection \<open>The reprojection residual\<close>

text \<open>
  \<^verbatim>\<open>ReprojectionError::operator ()\<close>: the 2 by \<open>n\<close> matrix of the differences between the
  reprojected and the detected corners, divided by \<open>0.5 * sqrt n\<close>, is stored column by
  column in the residuals.
\<close>

definition toEigen :: "Scalar list \<Rightarrow> Scalar list \<Rightarrow> Pose" where
  "toEigen q t = Pose (t ! 0, t ! 1, t ! 2) (Quaternion (q ! 0) (q ! 1) (q ! 2) (q ! 3))"

definition ReprojectionError ::
  "externals \<Rightarrow> Checkerboard \<Rightarrow> Point2 list \<Rightarrow> Scalar list \<Rightarrow> Scalar list \<Rightarrow> Scalar list" where
  "ReprojectionError ext cb image_corners checkerboard_pose_q checkerboard_pose_t =
     (let checkerboard_pose_eigen = toEigen checkerboard_pose_q checkerboard_pose_t;
          cb_corners = map (transform_point ext checkerboard_pose_eigen) (corners cb);
          reprojected_corners = map (project3dToPixel2 ext) cb_corners;
          elements = length cb_corners
      in concat (map (\<lambda>i.
           [(fst (reprojected_corners ! i) - fst (image_corners ! i)) / (0.5 * sqrt (real elements)),
            (snd (reprojected_corners ! i) - snd (image_corners ! i)) / (0.5 * sqrt (real elements))])
           [0..<elements]))"

lemma concat_pairs:
  "length (concat (map (\<lambda>i. [f i, g i]) [0..<n])) = 2 * n \<and>
   (\<forall>k < n. concat (map (\<lambda>i. [f i, g i]) [0..<n]) ! (2 * k) = f k \<and>
            concat (map (\<lambda>i. [f i, g i]) [0..<n]) ! (2 * k + 1) = g k)"
proof (induction n)
  case 0
  then show ?case by simp
next
  case (Suc n)
  then show ?case
    by (auto simp: nth_append less_Suc_eq)
qed

text \<open>
  C5, as amended. Every component of the reprojection residual of the full mode is the
  difference between a coordinate of the reprojected corner and the same coordinate of the
  detected corner, divided by 0.5 times the square root of the number of corners of the
  checkerboard.
\<close>

theorem ReprojectionError_components:
  "length (ReprojectionError ext cb image_corners q t) = 2 * length (corners cb) \<and>
   (\<forall>k < length (corners cb).
      ReprojectionError ext cb image_corners q t ! (2 * k) =
        (fst (project3dToPixel2 ext (transform_point ext (toEigen q t) (corners cb ! k))) -
         fst (image_corners ! k)) / (0.5 * sqrt (real (length (corners cb)))) \<and>
      ReprojectionError ext cb image_corners q t ! (2 * k + 1) =
        (snd (project3dToPixel2 ext (transform_point ext (toEigen q t) (corners cb ! k))) -
         snd (image_corners ! k)) / (0.5 * sqrt (real (length (corners cb)))))"
proof -
  let ?rep = "map (project3dToPixel2 ext) (map (transform_point ext (toEigen q t)) (corners cb))"
  let ?n = "length (corners cb)"
  let ?f = "\<lambda>i. (fst (?rep ! i) - fst (image_corners ! i)) / (0.5 * sqrt (real ?n))"
  let ?g = "\<lambda>i. (snd (?rep ! i) - snd (image_corners ! i)) / (0.5 * sqrt (real ?n))"
  have eq: "ReprojectionError ext cb image_corners q t = concat (map (\<lambda>i. [?f i, ?g i]) [0..<?n])"
    by (simp add: ReprojectionError_def Let_def)
  from concat_pairs [of ?f ?g ?n]
  have "length (concat (map (\<lambda>i. [?f i, ?g i]) [0..<?n])) = 2 * ?n"
    and "\<And>k. k < ?n \<Longrightarrow> concat (map (\<lambda>i. [?f i, ?g i]) [0..<?n]) ! (2 * k) = ?f k"
    and "\<And>k. k < ?n \<Longrightarrow> concat (map (\<lambda>i. [?f i, ?g i]) [0..<?n]) ! (2 * k + 1) = ?g k"
    by blast+
  then show ?thesis
    unfolding eq by simp
qed

subsection \<open>The cell of the global model that is solved for\<close>

definition SIZE :: "externals \<Rightarrow> nat" where
  "SIZE ext = Degree ext - MinDegree ext + 1"

text \<open>
  Modelled from the spec: \<^verbatim>\<open>Polynomial::evaluate\<close> is defined outside the
  source files embedded here.
  A polynomial of the global model has the coefficients of the degrees \<^verbatim>\<open>MinDegree\<close> to
  \<^verbatim>\<open>Degree\<close>, lowest first, as the matrix that \<^verbatim>\<open>optimizeAll\<close> builds has the powers.
\<close>

definition evaluate :: "nat \<Rightarrow> Scalar list \<Rightarrow> Scalar \<Rightarrow> Scalar" where
  "evaluate min_degree c x = sum_list (map (\<lambda>j. c ! j * x ^ (min_degree + j)) [0..<length c])"

text \<open>
  The linear system of \<^verbatim>\<open>optimizeAll\<close>: row \<open>i\<close> holds the powers \<open>MinDegree\<close> and up of
  \<open>x = i + 1\<close>, computed by repeated multiplication, and the right-hand side is
  \<open>p2 x + p3 x - p1 x\<close>.
\<close>

definition matrix_row :: "nat \<Rightarrow> nat \<Rightarrow> Scalar \<Rightarrow> Scalar list" where
  "matrix_row min_degree n x =
     (let tmp = fold (\<lambda>j tmp. tmp * x) [0..<min_degree] 1
      in fst (fold (\<lambda>j (row, tmp). (row[j := tmp], tmp * x)) [0..<n] (replicate n 0, tmp)))"

definition continuity_system ::
  "externals \<Rightarrow> Scalar list \<Rightarrow> Scalar list \<Rightarrow> Scalar list \<Rightarrow> Scalar list list \<times> Scalar list" where
  "continuity_system ext p1 p2 p3 =
     (map (\<lambda>i. matrix_row (MinDegree ext) (SIZE ext) (real (i + 1))) [0..<SIZE ext],
      map (\<lambda>i. evaluate (MinDegree ext) p2 (real (i + 1)) + evaluate (MinDegree ext) p3 (real (i + 1))
                - evaluate (MinDegree ext) p1 (real (i + 1))) [0..<SIZE ext])"







subsection \<open>\<^verbatim>\<open>Calibration::optimizeAll\<close>\<close>

definition quaternion_vector :: "externals \<Rightarrow> Rotation \<Rightarrow> Scalar list" where
  "quaternion_vector ext r = (case quaternion_of ext r of (w, x, y, z) \<Rightarrow> [w, x, y, z])"

definition distortion_residual_block ::
  "externals \<Rightarrow> nat \<Rightarrow> CheckerboardViews \<Rightarrow> PlaneInfo \<Rightarrow> ResidualBlock" where
  "distortion_residual_block ext i v depth_view =
     \<lparr>cost_function = distortion_residuals ext v,
      num_residuals = 3 * length (indices depth_view),
      loss = None,
      parameter_blocks =
        [TransformBlock, TranslationBlock, GlobalBlock, ViewBlock i, ViewTranslationBlock i, DeltaBlock]\<rparr>"

definition reprojection_residual_block ::
  "externals \<Rightarrow> nat \<Rightarrow> CheckerboardViews \<Rightarrow> ResidualBlock" where
  "reprojection_residual_block ext i v =
     \<lparr>cost_function = (\<lambda>blocks.
         ReprojectionError ext (checkerboard v) (colorView v) (blocks ! 0) (blocks ! 1)),
      num_residuals = 2 * length (corners (checkerboard v)),
      loss = None,
      parameter_blocks = [ViewBlock i, ViewTranslationBlock i]\<rparr>"

definition add_all_view ::
  "externals \<Rightarrow> Calibration \<Rightarrow> CheckerboardViews option list \<Rightarrow> nat \<Rightarrow>
   Problem \<times> (block_id \<Rightarrow> Scalar list) \<Rightarrow> error + Problem \<times> (block_id \<Rightarrow> Scalar list)" where
  "add_all_view ext s views i st =
     (case st of (problem, params) \<Rightarrow>
       (case views ! i of
          None \<Rightarrow> Inl NullPointer
        | Some v \<Rightarrow>
            (case depthPlane v of
               None \<Rightarrow> Inl NullPointer
             | Some depth_view \<Rightarrow>
                 if global_model s = None \<or> global_matrix s = None then Inl NullPointer
                 else
                   Inr (problem\<lparr>residual_blocks := residual_blocks problem @
                                  [distortion_residual_block ext i v depth_view,
                                   reprojection_residual_block ext i v],
                                quaternion_blocks := quaternion_blocks problem @ [ViewBlock i]\<rparr>,
                        params(ViewBlock i := quaternion_vector ext (linear (cb_pose (colorCheckerboard v))),
                               ViewTranslationBlock i :=
                                 list3 (translation (cb_pose (colorCheckerboard v))))))))"

definition global_block :: "GlobalModel option \<Rightarrow> Scalar list" where
  "global_block gm =
     (case gm of None \<Rightarrow> []
      | Some g \<Rightarrow> polynomial_0_0 g @ polynomial_0_1 g @ polynomial_1_0 g)"

definition all_problem ::
  "externals \<Rightarrow> CheckerboardViews option list \<Rightarrow> Calibration \<Rightarrow>
   error + Problem \<times> (block_id \<Rightarrow> Scalar list)" where
  "all_problem ext views s =
     (case for_loop [0..<length views] (add_all_view ext s views)
             (\<lparr>residual_blocks = [], quaternion_blocks = []\<rparr>,
              (\<lambda>b. [])(TransformBlock := quaternion_vector ext (linear (color_pose (color_sensor s))),
                       TranslationBlock := list3 (translation (color_pose (color_sensor s))),
                       GlobalBlock := global_block (global_model s),
                       DeltaBlock := [1, 1, 0, 0])) of
        Inl e \<Rightarrow> Inl e
      | Inr (problem, params) \<Rightarrow>
          Inr (problem\<lparr>quaternion_blocks := quaternion_blocks problem @ [TransformBlock]\<rparr>, params))"

definition all_options :: Options where
  "all_options =
     \<lparr>linear_solver_type = SPARSE_NORMAL_CHOLESKY, max_num_iterations = 20,
      minimizer_progress_to_stdout = True, num_threads = 8\<rparr>"

text \<open>
  After the solve: the pose of the colour sensor is set from the quaternion block and the
  translation block; the cell \<open>(1, 1)\<close> of the global model is set to the solution of the
  linear system made from the three other cells, which the solver has refined in place; and
  the depth intrinsics are updated by the refined correction.
\<close>

definition optimizeAll ::
  "externals \<Rightarrow> CheckerboardViews option list \<Rightarrow> Calibration \<Rightarrow> error + Calibration" where
  "optimizeAll ext views s =
     (case all_problem ext views s of
        Inl e \<Rightarrow> Inl e
      | Inr (problem, params) \<Rightarrow>
          (let sol = solve ext all_options problem params;
               q = sol TransformBlock;
               t = sol TranslationBlock;
               color = (color_sensor s)
                 \<lparr>color_pose := Pose (t ! 0, t ! 1, t ! 2) (Quaternion (q ! 0) (q ! 1) (q ! 2) (q ! 3))\<rparr>
           in case global_matrix s of
                None \<Rightarrow> Inl NullPointer
              | Some m \<Rightarrow>
                  (case global_model s of
                     None \<Rightarrow> Inl NullPointer
                   | Some gm \<Rightarrow>
                       (let g = sol GlobalBlock;
                            p1 = take (SIZE ext) g;
                            p2 = take (SIZE ext) (drop (SIZE ext) g);
                            p3 = take (SIZE ext) (drop (2 * SIZE ext) g);
                            (A, b) = continuity_system ext p1 p2 p3;
                            x = qr_solve ext A b;
                            delta = sol DeltaBlock;
                            d = depth_intrinsics s
                        in Inr (s\<lparr>color_sensor := color,
                                  global_model := Some (gm\<lparr>polynomial_0_0 := p1, polynomial_0_1 := p2,
                                                          polynomial_1_0 := p3, polynomial_1_1 := x\<rparr>),
                                  depth_intrinsics :=
                                    d[0 := d ! 0 * delta ! 0, 1 := d ! 1 * delta ! 1,
                                      2 := d ! 2 + delta ! 2, 3 := d ! 3 + delta ! 3],
                                  trace := trace s @ [SolveAll]\<rparr>)))))"





section \<open>The two operations: \<^verbatim>\<open>optimize\<close> and \<^verbatim>\<open>perform\<close>\<close>

text \<open>Reading the object behind an entry of \<open>depth_data_vec\<close>.\<close>

definition depth_data_at :: "Calibration \<Rightarrow> nat \<Rightarrow> error + DepthData" where
  "depth_data_at s i =
     (if i < length (depth_data_vec s) then
        (if depth_data_vec s ! i < length (depth_data_heap s)
         then Inr (depth_data_heap s ! (depth_data_vec s ! i))
         else Inl NullPointer)
      else Inl OutOfRange)"

text \<open>
  The loop of \<^verbatim>\<open>optimize\<close> that copies the views: a null entry is skipped. The loop is a
  parallel loop that appends under a lock; the copies are taken here in the order of the
  indices.
\<close>

definition add_undistorted_view ::
  "externals \<Rightarrow> Calibration \<Rightarrow> nat \<Rightarrow> CheckerboardViews option list \<Rightarrow>
   error + CheckerboardViews option list" where
  "add_undistorted_view ext s i und_cb_views_vec =
     (case cb_views_vec s ! i of
        None \<Rightarrow> Inr und_cb_views_vec
      | Some cb_views \<Rightarrow>
          (case depth_data_at s i of
             Inl e \<Rightarrow> Inl e
           | Inr depth_data \<Rightarrow>
               (let und_data = (view_data cb_views)\<lparr>depthData := undistorted_cloud depth_data\<rparr>;
                    und_cb_views = cb_views\<lparr>view_id := view_id cb_views @ ''_undistorted'',
                                            view_data := und_data\<rparr>
                in Inr (und_cb_views_vec @
                     [Some (setPlaneInliers_indices ext und_cb_views
                        (indices (estimated_plane depth_data))
                        (std_dev (estimated_plane depth_data)))]))))"

definition undistorted_views :: "externals \<Rightarrow> Calibration \<Rightarrow> error + CheckerboardViews option list" where
  "undistorted_views ext s =
     for_loop [0..<length (cb_views_vec s)] (add_undistorted_view ext s) []"

definition optimize :: "externals \<Rightarrow> Calibration \<Rightarrow> error + Calibration" where
  "optimize ext s =
     (if estimate_depth_und_model s then
        (case undistorted_views ext s of
           Inl e \<Rightarrow> Inl e
         | Inr und_cb_views_vec \<Rightarrow> optimizeAll ext und_cb_views_vec s)
      else optimizeTransform ext (cb_views_vec s) s)"

text \<open>
  The steps of \<^verbatim>\<open>perform\<close> when the undistortion model is estimated: the depth data of every
  view is handed to the estimation object, the three phases are run, and every view keeps
  its place with the re-estimated plane or is reset.
\<close>

definition add_depth_data :: "externals \<Rightarrow> nat \<Rightarrow> Calibration \<Rightarrow> error + Calibration" where
  "add_depth_data ext i s =
     (case cb_views_vec s ! i of
        None \<Rightarrow> Inl NullPointer
      | Some cb_views \<Rightarrow>
          (case depth_undistortion_estimation s of
             None \<Rightarrow> Inl NullPointer
           | Some estimation \<Rightarrow>
               (let cb = transform_checkerboard ext (colorCheckerboard cb_views)
                           (color_pose (color_sensor s))
                in Inr (s\<lparr>depth_data_vec := depth_data_vec s @ [length (depth_data_heap s)],
                          depth_data_heap := depth_data_heap s @
                            [addDepthData ext (depthData (view_data cb_views)) cb],
                          trace := trace s @ [AddDepthData i]\<rparr>))))"

definition run_phase ::
  "(estimation_state \<Rightarrow> estimation_state) \<Rightarrow> event \<Rightarrow> Calibration \<Rightarrow> error + Calibration" where
  "run_phase phase e s =
     (case depth_undistortion_estimation s of
        None \<Rightarrow> Inl NullPointer
      | Some estimation \<Rightarrow>
          (let st = phase \<lparr>est_heap = depth_data_heap s, est_local_model = local_model s,
                           est_global_model = global_model s\<rparr>
           in Inr (s\<lparr>depth_data_heap := est_heap st, local_model := est_local_model st,
                     global_model := est_global_model st, trace := trace s @ [e]\<rparr>)))"

definition keep_or_reset :: "externals \<Rightarrow> nat \<Rightarrow> Calibration \<Rightarrow> error + Calibration" where
  "keep_or_reset ext i s =
     (case cb_views_vec s ! i of
        None \<Rightarrow> Inl NullPointer
      | Some cb_views \<Rightarrow>
          (case depth_data_at s i of
             Inl e \<Rightarrow> Inl e
           | Inr depth_data \<Rightarrow>
               if plane_extracted depth_data then
                 Inr (s\<lparr>cb_views_vec := (cb_views_vec s)
                        [i := Some (setPlaneInliers ext cb_views (estimated_plane depth_data))]\<rparr>)
               else Inr (s\<lparr>cb_views_vec := (cb_views_vec s)[i := None]\<rparr>)))"

definition extract_all_views :: "externals \<Rightarrow> Calibration \<Rightarrow> Calibration" where
  "extract_all_views ext s =
     s\<lparr>cb_views_vec := extractAll ext (color_pose (color_sensor s)) (cb_vec s) (data_vec s)
                          (cb_views_vec s),
       trace := trace s @ [ExtractAll]\<rparr>"

definition undistortion_pipeline :: "externals \<Rightarrow> Calibration \<Rightarrow> error + Calibration" where
  "undistortion_pipeline ext s =
     (case for_loop [0..<length (cb_views_vec s)] (add_depth_data ext) s of
        Inl e \<Rightarrow> Inl e
      | Inr s1 \<Rightarrow>
     (case run_phase (estimateLocalModel ext) EstimateLocalModel s1 of
        Inl e \<Rightarrow> Inl e
      | Inr s2 \<Rightarrow>
     (case run_phase (estimateLocalModelReverse ext) EstimateLocalModelReverse s2 of
        Inl e \<Rightarrow> Inl e
      | Inr s3 \<Rightarrow>
     (case run_phase (estimateGlobalModel ext) EstimateGlobalModel s3 of
        Inl e \<Rightarrow> Inl e
      | Inr s4 \<Rightarrow> for_loop [0..<length (cb_views_vec s4)] (keep_or_reset ext) s4))))"

definition initial_step :: "externals \<Rightarrow> Calibration \<Rightarrow> Calibration" where
  "initial_step ext s =
     (if estimate_initial_trasform s \<or> color_parent (color_sensor s) = None
      then estimateInitialTransform ext s else s)"

definition perform :: "externals \<Rightarrow> Calibration \<Rightarrow> error + Calibration" where
  "perform ext s =
     (let s0 = initial_step ext s
      in if estimate_depth_und_model s0 then
           (case undistortion_pipeline ext (extract_all_views ext s0) of
              Inl e \<Rightarrow> Inl e
            | Inr s5 \<Rightarrow> Inr (estimateTransform ext (cb_views_vec s5) s5))
         else Inr (estimateTransform ext (cb_views_vec s0) s0))"

section \<open>Examples\<close>

text \<open>
  A small instance of the collaborators and of the calibration, on which the statements are
  evaluated: two frames, a checkerboard of four corners, a camera that drops the depth
  coordinate, poses that only translate, and solvers that return fixed values.
\<close>

definition example_board :: Checkerboard where
  "example_board =
     \<lparr>corners = [(0, 0, 0), (1, 0, 0), (0, 1, 0), (1, 1, 0)],
      cb_pose = Pose (0, 0, 1) (Quaternion 1 0 0 0), center = (0, 0, 1)\<rparr>"

definition example_plane :: PlaneInfo where
  "example_plane = \<lparr>plane = \<lparr>normal = (0, 0, 1), offset = - 1\<rparr>, indices = [0, 1, 2], std_dev = 0\<rparr>"

definition example_frame :: "nat \<Rightarrow> bool \<Rightarrow> RGBDData" where
  "example_frame n dense =
     \<lparr>data_id = n, colorData = Image [],
      depthData = \<lparr>width = 1, height = 1, is_dense = dense, points = [PCLPoint3 0 0 1]\<rparr>\<rparr>"

definition example_view :: "RGBDData \<Rightarrow> CheckerboardViews" where
  "example_view d =
     \<lparr>view_id = ''view'', view_data = d, checkerboard = example_board,
      colorCheckerboard = example_board\<lparr>center := (0, 0, 1 + 2 * real (data_id d))\<rparr>,
      colorView = [(0, 0), (1, 0), (0, 1), (1, 1)],
      depthPlane = Some example_plane\<rparr>"

definition example_solve ::
  "Options \<Rightarrow> Problem \<Rightarrow> (block_id \<Rightarrow> Scalar list) \<Rightarrow> (block_id \<Rightarrow> Scalar list)" where
  "example_solve opts problem params =
     (if linear_solver_type opts = SPARSE_SCHUR
      then params(TransformBlock := [0, 0, 0, 1, 2, 3])
      else params(TransformBlock := [1, 0, 0, 0], TranslationBlock := [1, 2, 3],
                  GlobalBlock := [0, 0, 1, 0, 0, 1], DeltaBlock := [2, 3, 10, 20]))"

definition example_qr_solve :: "Scalar list list \<Rightarrow> Scalar list \<Rightarrow> Scalar list" where
  "example_qr_solve A b =
     (let det = A ! 0 ! 0 * A ! 1 ! 1 - A ! 0 ! 1 * A ! 1 ! 0
      in [(b ! 0 * A ! 1 ! 1 - A ! 0 ! 1 * b ! 1) / det,
          (A ! 0 ! 0 * b ! 1 - b ! 0 * A ! 1 ! 0) / det])"

definition example_externals :: externals where
  "example_externals =
     \<lparr>rand = (\<lambda>k. k),
      detect = (\<lambda>cbs d. if data_id d < 2 then Some (example_view d) else None),
      extractAll = (\<lambda>pose cbs datas views. map (\<lambda>d. Some ((example_view d)\<lparr>depthPlane := None\<rparr>)) datas),
      transform_checkerboard = (\<lambda>cb pose. cb),
      addDepthData = (\<lambda>c cb. \<lparr>cloud = c, undistorted_cloud = c, estimated_plane = example_plane,
                                plane_extracted = False\<rparr>),
      estimateLocalModel = (\<lambda>st. st),
      estimateLocalModelReverse =
        (\<lambda>st. st\<lparr>est_heap := map (\<lambda>d. d\<lparr>plane_extracted := is_dense (cloud d)\<rparr>) (est_heap st)\<rparr>),
      estimateGlobalModel = (\<lambda>st. st),
      setPlaneInliers = (\<lambda>v p. v\<lparr>depthPlane := Some p\<rparr>),
      setPlaneInliers_indices =
        (\<lambda>v idx sd. v\<lparr>depthPlane := Some (example_plane\<lparr>indices := idx, std_dev := sd\<rparr>)\<rparr>),
      plane_calibration =
        (\<lambda>pairs sensors.
           ((fst sensors)\<lparr>color_pose := Pose (real (length pairs), 0, 0) (Quaternion 1 0 0 0),
                           color_parent := Some ''depth''\<rparr>, snd sensors)),
      angle_axis_of = (\<lambda>r. case r of AngleAxis a v \<Rightarrow> (a, v) | Quaternion w x y z \<Rightarrow> (0, (1, 0, 0))),
      quaternion_of = (\<lambda>r. case r of AngleAxis a v \<Rightarrow> (1, 0, 0, 0) | Quaternion w x y z \<Rightarrow> (w, x, y, z)),
      project3dToPixel2 = (\<lambda>p. (fst p, fst (snd p))),
      transform_point = (\<lambda>pose p. minus3 p (minus3 (0, 0, 0) (translation pose))),
      poly_eval = (\<lambda>c x. c ! 0 + c ! 1 * x + c ! 2 * x * x),
      distortion_residuals = (\<lambda>v blocks. []),
      normalized = (\<lambda>v. v),
      solve = example_solve,
      Degree = 1,
      MinDegree = 0,
      qr_solve = example_qr_solve\<rparr>"

lemma example_externals_simps:
  "rand example_externals = (\<lambda>k. k)"
  "detect example_externals = (\<lambda>cbs d. if data_id d < 2 then Some (example_view d) else None)"
  "extractAll example_externals =
     (\<lambda>pose cbs datas views. map (\<lambda>d. Some ((example_view d)\<lparr>depthPlane := None\<rparr>)) datas)"
  "transform_checkerboard example_externals = (\<lambda>cb pose. cb)"
  "addDepthData example_externals =
     (\<lambda>c cb. \<lparr>cloud = c, undistorted_cloud = c, estimated_plane = example_plane,
                                plane_extracted = False\<rparr>)"
  "estimateLocalModel example_externals = (\<lambda>st. st)"
  "estimateLocalModelReverse example_externals =
     (\<lambda>st. st\<lparr>est_heap := map (\<lambda>d. d\<lparr>plane_extracted := is_dense (cloud d)\<rparr>) (est_heap st)\<rparr>)"
  "estimateGlobalModel example_externals = (\<lambda>st. st)"
  "setPlaneInliers example_externals = (\<lambda>v p. v\<lparr>depthPlane := Some p\<rparr>)"
  "setPlaneInliers_indices example_externals =
     (\<lambda>v idx sd. v\<lparr>depthPlane := Some (example_plane\<lparr>indices := idx, std_dev := sd\<rparr>)\<rparr>)"
  "plane_calibration example_externals =
     (\<lambda>pairs sensors.
           ((fst sensors)\<lparr>color_pose := Pose (real (length pairs), 0, 0) (Quaternion 1 0 0 0),
                           color_parent := Some ''depth''\<rparr>, snd sensors))"
  "angle_axis_of example_externals =
     (\<lambda>r. case r of AngleAxis a v \<Rightarrow> (a, v) | Quaternion w x y z \<Rightarrow> (0, (1, 0, 0)))"
  "quaternion_of example_externals =
     (\<lambda>r. case r of AngleAxis a v \<Rightarrow> (1, 0, 0, 0) | Quaternion w x y z \<Rightarrow> (w, x, y, z))"
  "project3dToPixel2 example_externals = (\<lambda>p. (fst p, fst (snd p)))"
  "transform_point example_externals = (\<lambda>pose p. minus3 p (minus3 (0, 0, 0) (translation pose)))"
  "poly_eval example_externals = (\<lambda>c x. c ! 0 + c ! 1 * x + c ! 2 * x * x)"
  "distortion_residuals example_externals = (\<lambda>v blocks. [])"
  "normalized example_externals = (\<lambda>v. v)"
  "solve example_externals = example_solve"
  "Degree example_externals = 1"
  "MinDegree example_externals = 0"
  "qr_solve example_externals = example_qr_solve"
  by (simp_all add: example_externals_def)

definition example_calibration :: Calibration where
  "example_calibration =
     (new_Calibration example_color example_depth)
       \<lparr>data_vec := [example_frame 0 True, example_frame 1 False]\<rparr>"

lemma sqrt_9: "sqrt 9 = 3"
  by (rule real_sqrt_unique) simp_all

lemma example_initial_views:
  "initial_views example_externals 0 [] example_calibration =
     ([Some (example_view (example_frame 0 True))],
      example_calibration\<lparr>rand_calls := 2, trace := [Extract 0, Extract 1]\<rparr>)"
  by (simp add: example_calibration_def new_Calibration_def example_externals_simps
      extractor_extract_def isValid_def example_view_def example_frame_def example_board_def
      Let_def sqrt_9)


theorem estimateInitialTransform_views_witness:
  "length [Some (example_view (example_frame 0 True))] \<le> 10 \<and>
   norm3 (center (colorCheckerboard (example_view (example_frame 0 True)))) \<le> 2 \<and>
   \<not> norm3 (center (colorCheckerboard (example_view (example_frame 1 False)))) \<le> 2 \<and>
   estimateInitialTransform example_externals example_calibration =
     estimateTransform example_externals [Some (example_view (example_frame 0 True))]
       (example_calibration\<lparr>rand_calls := 2, trace := [Extract 0, Extract 1]\<rparr>) \<and>
   color_pose (color_sensor (estimateInitialTransform example_externals example_calibration)) =
     Pose (1, 0, 0) (Quaternion 1 0 0 0)"
proof -
  let ?views = "[Some (example_view (example_frame 0 True))]"
  let ?s' = "example_calibration\<lparr>rand_calls := 2, trace := [Extract 0, Extract 1]\<rparr>"
  note inst = estimateInitialTransform_views [OF example_initial_views]
  have len: "length ?views \<le> 10"
    using inst by (rule conjunct1)
  have near: "\<forall>v \<in> set ?views. \<exists>w. v = Some w \<and>
        isValid \<lparr>distance = 2.0, from_point = (0, 0, 0)\<rparr> (colorCheckerboard w) \<and>
        norm3 (center (colorCheckerboard w)) \<le> 2 \<and>
        (\<exists>index < length (data_vec example_calibration).
            detect example_externals (cb_vec example_calibration)
              (data_vec example_calibration ! index) = Some w)"
    using inst by (elim conjE)
  have run: "estimateInitialTransform example_externals example_calibration =
      estimateTransform example_externals ?views ?s'"
    using inst by (elim conjE)
  have pose: "color_sensor (estimateInitialTransform example_externals example_calibration) =
       fst (plane_calibration example_externals
             (map (\<lambda>v. (colorCheckerboard (the v), depthPlane (the v))) ?views)
             (color_sensor example_calibration, depth_sensor example_calibration))"
    using inst by (elim conjE)
  have "norm3 (center (colorCheckerboard (example_view (example_frame 0 True)))) \<le> 2"
    using near by simp
  moreover have "\<not> norm3 (center (colorCheckerboard (example_view (example_frame 1 False)))) \<le> 2"
    by (simp add: example_view_def example_frame_def example_board_def sqrt_9)
  moreover have "color_pose (color_sensor (estimateInitialTransform example_externals example_calibration)) =
     Pose (1, 0, 0) (Quaternion 1 0 0 0)"
    unfolding pose by (simp add: example_externals_simps)
  ultimately show ?thesis
    using len run by blast
qed

text \<open>
  With four corners, a reprojected corner at distance 1 from the detected one gives the
  residual 1, not \<open>1 / 0.5\<close>.
\<close>

theorem ReprojectionError_counterexample:
  "ReprojectionError example_externals example_board [(0, 0), (0, 0), (0, 0), (0, 0)]
      [1, 0, 0, 0] [1, 0, 0] ! 0 \<noteq>
   (fst (project3dToPixel2 example_externals
          (transform_point example_externals (toEigen [1, 0, 0, 0] [1, 0, 0]) (corners example_board ! 0)))
    - fst ([(0, 0), (0, 0), (0, 0), (0, 0)] ! 0)) / 0.5"
  by (simp add: ReprojectionError_def example_externals_simps example_board_def toEigen_def
      Let_def upt_conv_Cons)

theorem ReprojectionError_components_witness:
  "length (ReprojectionError example_externals example_board [(0, 0), (0, 0), (0, 0), (0, 0)]
      [1, 0, 0, 0] [1, 0, 0]) = 8 \<and>
   ReprojectionError example_externals example_board [(0, 0), (0, 0), (0, 0), (0, 0)]
      [1, 0, 0, 0] [1, 0, 0] ! 0 = 1 \<and>
   ReprojectionError example_externals example_board [(0, 0), (0, 0), (0, 0), (0, 0)]
      [1, 0, 0, 0] [1, 0, 0] ! 3 = 0"
  using ReprojectionError_components [of example_externals example_board
      "[(0, 0), (0, 0), (0, 0), (0, 0)]" "[1, 0, 0, 0]" "[1, 0, 0]", THEN conjunct1]
    ReprojectionError_components [of example_externals example_board
      "[(0, 0), (0, 0), (0, 0), (0, 0)]" "[1, 0, 0, 0]" "[1, 0, 0]", THEN conjunct2, rule_format, of 0]
    ReprojectionError_components [of example_externals example_board
      "[(0, 0), (0, 0), (0, 0), (0, 0)]" "[1, 0, 0, 0]" "[1, 0, 0]", THEN conjunct2, rule_format, of 1]
  by (simp add: example_externals_simps example_board_def toEigen_def)


definition example_views :: "CheckerboardViews option list" where
  "example_views = [Some (example_view (example_frame 0 True))]"

lemma example_transform_problem:
  "transform_problem example_externals example_views example_calibration =
     Inr (\<lparr>residual_blocks =
             [transform_residual_block example_externals example_calibration 0
                (example_view (example_frame 0 True)) example_plane],
           quaternion_blocks = []\<rparr>,
          (\<lambda>b. [])(TransformBlock := [0, 0, 0, 0, 0, 0], ViewBlock 0 := [0, 0, 0, 0, 0, 1]))"
  by (simp add: transform_problem_def add_transform_view_def example_views_def example_view_def
      example_calibration_def new_Calibration_def example_color_def angle_axis_vector_def
      example_externals_simps example_board_def)

theorem optimizeTransform_problem_witness:
  "\<exists>problem params.
     transform_problem example_externals example_views example_calibration = Inr (problem, params) \<and>
     length (residual_blocks problem) = 1 \<and>
     num_residuals (residual_blocks problem ! 0) = 8 \<and>
     loss (residual_blocks problem ! 0) = Some (CauchyLoss 1) \<and>
     parameter_blocks (residual_blocks problem ! 0) = [TransformBlock, ViewBlock 0] \<and>
     length (cost_function (residual_blocks problem ! 0) [[0, 0, 0, 0, 0, 1], [0, 0, 0, 1, 0, 1]]) = 8 \<and>
     cost_function (residual_blocks problem ! 0) [[0, 0, 0, 0, 0, 1], [0, 0, 0, 1, 0, 1]] ! 0 = 2 \<and>
     cost_function (residual_blocks problem ! 0) [[0, 0, 0, 0, 0, 1], [0, 0, 0, 1, 0, 1]] ! 1 = 1 / 4 \<and>
     linear_solver_type transform_options = SPARSE_SCHUR \<and>
     max_num_iterations transform_options = 100 \<and>
     (\<exists>s'. optimizeTransform example_externals example_views example_calibration = Inr s' \<and>
        color_pose (color_sensor s') = Pose (1, 2, 3) (AngleAxis 0 (0, 0, 0)))"
proof -
  let ?problem = "\<lparr>residual_blocks =
             [transform_residual_block example_externals example_calibration 0
                (example_view (example_frame 0 True)) example_plane],
           quaternion_blocks = []\<rparr>"
  let ?params = "(\<lambda>b. [])(TransformBlock := [0, 0, 0, 0, 0, 0], ViewBlock 0 := [0 :: Scalar, 0, 0, 0, 0, 1])"
  let ?t = "[0 :: Scalar, 0, 0, 0, 0, 1]"
  let ?c = "[0 :: Scalar, 0, 0, 1, 0, 1]"
  note inst = optimizeTransform_problem [OF example_transform_problem]
  have n: "length (residual_blocks ?problem) = length example_views"
    using inst by (elim conjE)
  have "\<forall>i < length example_views. \<exists>v d. example_views ! i = Some v \<and> depthPlane v = Some d \<and>
        num_residuals (residual_blocks ?problem ! i) = 2 * length (corners (checkerboard v)) \<and>
        loss (residual_blocks ?problem ! i) = Some (CauchyLoss 1) \<and>
        parameter_blocks (residual_blocks ?problem ! i) = [TransformBlock, ViewBlock i] \<and>
        (\<forall>t c. length (cost_function (residual_blocks ?problem ! i) [t, c]) =
                  2 * length (corners (checkerboard v)) \<and>
           (\<forall>k < length (corners (checkerboard v)).
              cost_function (residual_blocks ?problem ! i) [t, c] ! (2 * k) =
                norm2 (minus2
                  (project3dToPixel2 example_externals
                     (transform_point example_externals (pose_of_angle_axis example_externals c)
                        (corners (checkerboard v) ! k)))
                  (colorView v ! k)) / 0.5 \<and>
              cost_function (residual_blocks ?problem ! i) [t, c] ! (2 * k + 1) =
                absDistance (plane d)
                  (transform_point example_externals (pose_of_angle_axis example_externals t)
                     (transform_point example_externals (pose_of_angle_axis example_externals c)
                        (corners (checkerboard v) ! k))) /
                poly_eval example_externals (depthErrorFunction (depth_sensor example_calibration))
                  (z_of (transform_point example_externals (pose_of_angle_axis example_externals t)
                     (transform_point example_externals (pose_of_angle_axis example_externals c)
                        (corners (checkerboard v) ! k))))))"
    using inst by (elim conjE)
  then obtain v d where v: "example_views ! 0 = Some v" "depthPlane v = Some d"
    and hd: "num_residuals (residual_blocks ?problem ! 0) = 2 * length (corners (checkerboard v))"
      "loss (residual_blocks ?problem ! 0) = Some (CauchyLoss 1)"
      "parameter_blocks (residual_blocks ?problem ! 0) = [TransformBlock, ViewBlock 0]"
    and len: "length (cost_function (residual_blocks ?problem ! 0) [?t, ?c]) =
                  2 * length (corners (checkerboard v))"
    and comp: "\<forall>k < length (corners (checkerboard v)).
              cost_function (residual_blocks ?problem ! 0) [?t, ?c] ! (2 * k) =
                norm2 (minus2
                  (project3dToPixel2 example_externals
                     (transform_point example_externals (pose_of_angle_axis example_externals ?c)
                        (corners (checkerboard v) ! k)))
                  (colorView v ! k)) / 0.5 \<and>
              cost_function (residual_blocks ?problem ! 0) [?t, ?c] ! (2 * k + 1) =
                absDistance (plane d)
                  (transform_point example_externals (pose_of_angle_axis example_externals ?t)
                     (transform_point example_externals (pose_of_angle_axis example_externals ?c)
                        (corners (checkerboard v) ! k))) /
                poly_eval example_externals (depthErrorFunction (depth_sensor example_calibration))
                  (z_of (transform_point example_externals (pose_of_angle_axis example_externals ?t)
                     (transform_point example_externals (pose_of_angle_axis example_externals ?c)
                        (corners (checkerboard v) ! k))))"
    by (auto simp: example_views_def)
  have v0: "v = example_view (example_frame 0 True)"
    using v(1) by (simp add: example_views_def)
  have vd: "v = example_view (example_frame 0 True)" "d = example_plane"
    using v(2) by (simp_all add: v0 example_view_def)
  have n4: "length (corners (checkerboard v)) = 4"
    by (simp add: vd example_view_def example_board_def)
  have c0: "cost_function (residual_blocks ?problem ! 0) [?t, ?c] ! 0 = 2"
    using comp [rule_format, of 0] n4
    by (simp add: vd example_view_def example_board_def example_externals_simps
        pose_of_angle_axis_def head3_def)
  have c1: "cost_function (residual_blocks ?problem ! 0) [?t, ?c] ! 1 = 1 / 4"
    using comp [rule_format, of 0] n4
    by (simp add: vd example_view_def example_board_def example_externals_simps
        pose_of_angle_axis_def head3_def example_plane_def example_calibration_def
        new_Calibration_def example_depth_def)
  have opt: "linear_solver_type transform_options = SPARSE_SCHUR"
    "max_num_iterations transform_options = 100"
    by (simp_all add: transform_options_def)
  have "\<exists>s'. optimizeTransform example_externals example_views example_calibration = Inr s' \<and>
        color_pose (color_sensor s') =
          Pose (tail3 (solve example_externals transform_options ?problem ?params TransformBlock))
            (AngleAxis (norm3 (head3 (solve example_externals transform_options ?problem ?params TransformBlock)))
               (normalized example_externals
                  (head3 (solve example_externals transform_options ?problem ?params TransformBlock))))"
    using inst by (elim conjE)
  then have run: "\<exists>s'. optimizeTransform example_externals example_views example_calibration = Inr s' \<and>
        color_pose (color_sensor s') = Pose (1, 2, 3) (AngleAxis 0 (0, 0, 0))"
    by (simp add: example_externals_simps example_solve_def transform_options_def head3_def tail3_def)
  have n1: "length (residual_blocks ?problem) = 1"
    by simp
  have len8: "length (cost_function (residual_blocks ?problem ! 0) [?t, ?c]) = 8"
    using len n4 by simp
  have hd8: "num_residuals (residual_blocks ?problem ! 0) = 8"
    using hd(1) n4 by simp
  from example_transform_problem n1 hd8 hd(2,3) len8 c0 c1 opt run
  show ?thesis
    by blast
qed

section \<open>The order of the steps of \<^verbatim>\<open>perform\<close>, and views that are reset\<close>

lemma for_loop_result:
  assumes "for_loop [0..<n] body s = Inr s'" "I 0 s"
    and "\<And>k t t'. k < n \<Longrightarrow> I k t \<Longrightarrow> body k t = Inr t' \<Longrightarrow> I (Suc k) t'"
  shows "I n s'"
  using assms(1,3)
proof (induction n arbitrary: s')
  case 0
  then show ?case using assms(2) by simp
next
  case (Suc n)
  from Suc.prems(1) obtain t where t: "for_loop [0..<n] body s = Inr t" "body n t = Inr s'"
    by (auto simp: for_loop_append split: sum.splits)
  have "I n t"
  proof (rule Suc.IH [OF t(1)])
    show "I (Suc k) u'" if "k < n" "I k u" "body k u = Inr u'" for k u u'
      using Suc.prems(2) [of k u u'] that by simp
  qed
  then show ?case
    using Suc.prems(2) [of n t s'] t(2) by simp
qed

definition count_views :: "CheckerboardViews option list \<Rightarrow> nat" where
  "count_views views = length (filter (\<lambda>v. v \<noteq> None) views)"

text \<open>Every entry that holds a view in \<open>after\<close> held one in \<open>before\<close>.\<close>

definition only_reset :: "CheckerboardViews option list \<Rightarrow> CheckerboardViews option list \<Rightarrow> bool" where
  "only_reset before after =
     (length after = length before \<and> (\<forall>i < length before. after ! i \<noteq> None \<longrightarrow> before ! i \<noteq> None))"

lemma only_reset_count:
  "only_reset before after \<Longrightarrow> count_views after \<le> count_views before"
proof (induction before arbitrary: after)
  case Nil
  then show ?case by (simp add: only_reset_def count_views_def)
next
  case (Cons b before)
  then obtain a after' where a: "after = a # after'"
    by (cases after) (auto simp: only_reset_def)
  have "only_reset before after'"
    using Cons.prems unfolding only_reset_def a by auto
  then have "count_views after' \<le> count_views before"
    by (rule Cons.IH)
  moreover have "a \<noteq> None \<longrightarrow> b \<noteq> None"
    using Cons.prems unfolding only_reset_def a by auto
  ultimately show ?case
    by (auto simp: a count_views_def)
qed

lemma add_depth_data_loop:
  assumes "for_loop [0..<n] (add_depth_data ext) s = Inr s'"
  shows "cb_views_vec s' = cb_views_vec s \<and> trace s' = trace s @ map AddDepthData [0..<n] \<and>
     depth_undistortion_estimation s' = depth_undistortion_estimation s \<and>
     color_sensor s' = color_sensor s \<and> depth_sensor s' = depth_sensor s \<and>
     length (depth_data_vec s') = length (depth_data_vec s) + n \<and>
     estimate_depth_und_model s' = estimate_depth_und_model s \<and>
     (\<forall>i < n. cb_views_vec s ! i \<noteq> None)"
  by (rule for_loop_result [OF assms, where I = "\<lambda>k t.
        cb_views_vec t = cb_views_vec s \<and> trace t = trace s @ map AddDepthData [0..<k] \<and>
        depth_undistortion_estimation t = depth_undistortion_estimation s \<and>
        color_sensor t = color_sensor s \<and> depth_sensor t = depth_sensor s \<and>
        length (depth_data_vec t) = length (depth_data_vec s) + k \<and>
        estimate_depth_und_model t = estimate_depth_und_model s \<and>
        (\<forall>i < k. cb_views_vec s ! i \<noteq> None)"])
     (auto simp: add_depth_data_def Let_def less_Suc_eq split: option.splits)

lemma run_phase_result:
  assumes "run_phase phase e s = Inr s'"
  shows "cb_views_vec s' = cb_views_vec s \<and> trace s' = trace s @ [e] \<and>
     depth_undistortion_estimation s' = depth_undistortion_estimation s \<and>
     color_sensor s' = color_sensor s \<and> depth_sensor s' = depth_sensor s \<and>
     depth_data_vec s' = depth_data_vec s \<and>
     estimate_depth_und_model s' = estimate_depth_und_model s"
  using assms by (auto simp: run_phase_def Let_def split: option.splits)

text \<open>The entry that the last loop of the pipeline leaves at position \<open>i\<close>.\<close>

definition kept :: "externals \<Rightarrow> Calibration \<Rightarrow> nat \<Rightarrow> CheckerboardViews option" where
  "kept ext s i =
     (case (cb_views_vec s ! i, depth_data_at s i) of
        (Some cb_views, Inr depth_data) \<Rightarrow>
          if plane_extracted depth_data
          then Some (setPlaneInliers ext cb_views (estimated_plane depth_data))
          else None
      | _ \<Rightarrow> None)"

lemma keep_or_reset_loop:
  assumes "for_loop [0..<n] (keep_or_reset ext) s = Inr s'" "n \<le> length (cb_views_vec s)"
  shows "s' = s\<lparr>cb_views_vec := map (kept ext s) [0..<n] @ drop n (cb_views_vec s)\<rparr> \<and>
     (\<forall>i < n. cb_views_vec s ! i \<noteq> None)"
proof (rule for_loop_result [OF assms(1), where I = "\<lambda>k t.
        t = s\<lparr>cb_views_vec := map (kept ext s) [0..<k] @ drop k (cb_views_vec s)\<rparr> \<and>
        (\<forall>i < k. cb_views_vec s ! i \<noteq> None)"])
  show "s = s\<lparr>cb_views_vec := map (kept ext s) [0..<0] @ drop 0 (cb_views_vec s)\<rparr> \<and>
       (\<forall>i < 0. cb_views_vec s ! i \<noteq> None)"
    by simp
next
  fix k t t'
  assume k: "k < n"
    and t: "t = s\<lparr>cb_views_vec := map (kept ext s) [0..<k] @ drop k (cb_views_vec s)\<rparr> \<and>
        (\<forall>i < k. cb_views_vec s ! i \<noteq> None)"
    and step: "keep_or_reset ext k t = Inr t'"
  have kl: "k < length (cb_views_vec s)"
    using k assms(2) by simp
  have cur: "cb_views_vec t ! k = cb_views_vec s ! k"
    using t kl by (simp add: nth_append)
  have dd: "depth_data_at t k = depth_data_at s k"
    using t by (simp add: depth_data_at_def)
  have upd: "(map (kept ext s) [0..<k] @ drop k (cb_views_vec s))[k := x] =
      map (kept ext s) [0..<k] @ x # drop (Suc k) (cb_views_vec s)" for x
    using kl by (simp add: list_update_append Cons_nth_drop_Suc [symmetric])
  from step obtain v d where vd: "cb_views_vec s ! k = Some v" "depth_data_at s k = Inr d"
    unfolding keep_or_reset_def cur dd by (auto split: option.splits sum.splits)
  have "t' = t\<lparr>cb_views_vec := (cb_views_vec t)[k := kept ext s k]\<rparr>"
    using step unfolding keep_or_reset_def cur dd kept_def vd by (simp split: if_splits)
  then have "t' = s\<lparr>cb_views_vec := map (kept ext s) [0..<Suc k] @ drop (Suc k) (cb_views_vec s)\<rparr>"
    using t by (simp add: upd)
  moreover have "\<forall>i < Suc k. cb_views_vec s ! i \<noteq> None"
    using t vd(1) by (auto simp: less_Suc_eq)
  ultimately show "t' = s\<lparr>cb_views_vec := map (kept ext s) [0..<Suc k] @ drop (Suc k) (cb_views_vec s)\<rparr> \<and>
        (\<forall>i < Suc k. cb_views_vec s ! i \<noteq> None)"
    by simp
qed


lemma undistortion_pipeline_result:
  assumes "undistortion_pipeline ext s = Inr s'"
  shows "\<exists>s4. cb_views_vec s4 = cb_views_vec s \<and>
     cb_views_vec s' = map (kept ext s4) [0..<length (cb_views_vec s)] \<and>
     (\<forall>i < length (cb_views_vec s). cb_views_vec s ! i \<noteq> None) \<and>
     trace s' = trace s @ map AddDepthData [0..<length (cb_views_vec s)] @
       [EstimateLocalModel, EstimateLocalModelReverse, EstimateGlobalModel] \<and>
     color_sensor s' = color_sensor s \<and> depth_sensor s' = depth_sensor s \<and>
     estimate_depth_und_model s' = estimate_depth_und_model s"
proof -
  from assms obtain s1 s2 s3 s4 where
    l1: "for_loop [0..<length (cb_views_vec s)] (add_depth_data ext) s = Inr s1" and
    p2: "run_phase (estimateLocalModel ext) EstimateLocalModel s1 = Inr s2" and
    p3: "run_phase (estimateLocalModelReverse ext) EstimateLocalModelReverse s2 = Inr s3" and
    p4: "run_phase (estimateGlobalModel ext) EstimateGlobalModel s3 = Inr s4" and
    l5: "for_loop [0..<length (cb_views_vec s4)] (keep_or_reset ext) s4 = Inr s'"
    by (auto simp: undistortion_pipeline_def split: sum.splits)
  note a = add_depth_data_loop [OF l1] and b = run_phase_result [OF p2]
    and c = run_phase_result [OF p3] and d = run_phase_result [OF p4]
  have v4: "cb_views_vec s4 = cb_views_vec s"
    using a b c d by simp
  have t4: "trace s4 = trace s @ map AddDepthData [0..<length (cb_views_vec s)] @
       [EstimateLocalModel, EstimateLocalModelReverse, EstimateGlobalModel]"
    using a b c d by simp
  have s4: "color_sensor s4 = color_sensor s" "depth_sensor s4 = depth_sensor s"
    "estimate_depth_und_model s4 = estimate_depth_und_model s"
    using a b c d by simp_all
  from keep_or_reset_loop [OF l5]
  have e: "s' = s4\<lparr>cb_views_vec := map (kept ext s4) [0..<length (cb_views_vec s4)] @
                drop (length (cb_views_vec s4)) (cb_views_vec s4)\<rparr>"
    by simp
  have "cb_views_vec s' = map (kept ext s4) [0..<length (cb_views_vec s)]"
    by (subst e) (simp add: v4)
  moreover have "trace s' = trace s4" "color_sensor s' = color_sensor s4"
    "depth_sensor s' = depth_sensor s4" "estimate_depth_und_model s' = estimate_depth_und_model s4"
    by (subst e, simp)+
  ultimately show ?thesis
    using v4 t4 s4 a by (intro exI [of _ s4]) simp
qed

lemma initial_views_fields:
  assumes "initial_views ext i views s = (views', s')"
  shows "\<exists>n t. s' = s\<lparr>rand_calls := n, trace := t\<rparr>"
  using assms
proof (induction ext i views s rule: initial_views.induct)
  case (1 ext i views s)
  show ?case
  proof (cases "i < length (data_vec s) \<and> length views < 10")
    case False
    then have "s' = s" using "1.prems" by (auto split: if_splits)
    then show ?thesis
      by (intro exI [of _ "rand_calls s"] exI [of _ "trace s"]) simp
  next
    case True
    let ?index = "rand ext (rand_calls s) mod length (data_vec s)"
    let ?s = "s\<lparr>rand_calls := rand_calls s + 1, trace := trace s @ [Extract ?index]\<rparr>"
    have "initial_views ext (Suc i)
        (extractor_extract ext \<lparr>distance = 2.0, from_point = (0, 0, 0)\<rparr> (cb_vec s)
           (data_vec s ! ?index) views) ?s = (views', s')"
      using "1.prems" True by (simp add: Let_def)
    from "1.IH" [OF True refl this] obtain n t where "s' = ?s\<lparr>rand_calls := n, trace := t\<rparr>"
      by blast
    then show ?thesis
      by (intro exI [of _ n] exI [of _ t]) simp
  qed
qed

lemma initial_step_fields:
  "estimate_depth_und_model (initial_step ext s) = estimate_depth_und_model s \<and>
   cb_views_vec (initial_step ext s) = cb_views_vec s \<and>
   data_vec (initial_step ext s) = data_vec s \<and> cb_vec (initial_step ext s) = cb_vec s \<and>
   depth_data_vec (initial_step ext s) = depth_data_vec s"
proof (cases "estimate_initial_trasform s \<or> color_parent (color_sensor s) = None")
  case False
  then show ?thesis by (auto simp: initial_step_def)
next
  case True
  obtain views s1 where v: "initial_views ext 0 [] s = (views, s1)"
    by (cases "initial_views ext 0 [] s")
  from initial_views_fields [OF v] obtain n t where "s1 = s\<lparr>rand_calls := n, trace := t\<rparr>"
    by blast
  then show ?thesis
    using True v
    by (simp add: initial_step_def estimateInitialTransform_def estimateTransform_plane_pairs)
qed

lemma plane_pairs_count: "length (plane_pairs views) = count_views views"
  by (induction views) (auto simp: plane_pairs_simps count_views_def)

lemma initial_step_trace:
  "\<exists>es. trace (initial_step ext s) = trace s @ es \<and> SolveTransform \<notin> set es \<and> SolveAll \<notin> set es"
proof (cases "estimate_initial_trasform s \<or> color_parent (color_sensor s) = None")
  case False
  then have "trace (initial_step ext s) = trace s @ []"
    by (auto simp: initial_step_def)
  then show ?thesis
    by (intro exI [of _ "[]"]) simp
next
  case True
  obtain views s1 where v: "initial_views ext 0 [] s = (views, s1)"
    by (cases "initial_views ext 0 [] s")
  from initial_views_invariant [OF v] obtain m where
    "s1 = s\<lparr>rand_calls := rand_calls s + m,
             trace := trace s @
               map (\<lambda>k. Extract (rand ext (rand_calls s + k) mod length (data_vec s))) [0..<m]\<rparr>"
    by auto
  then have "trace (initial_step ext s) = trace s @
      (map (\<lambda>k. Extract (rand ext (rand_calls s + k) mod length (data_vec s))) [0..<m] @
       [PlaneBasedExtrinsicCalibration (length (plane_pairs views))])"
    using True v
    by (simp add: initial_step_def estimateInitialTransform_def estimateTransform_plane_pairs)
  then show ?thesis
    by (intro exI [of _ "map (\<lambda>k. Extract (rand ext (rand_calls s + k) mod length (data_vec s))) [0..<m] @
       [PlaneBasedExtrinsicCalibration (length (plane_pairs views))]"]) auto
qed

lemma perform_undistortion:
  assumes "perform ext s = Inr s'" "estimate_depth_und_model s"
  shows "\<exists>s5. undistortion_pipeline ext (extract_all_views ext (initial_step ext s)) = Inr s5 \<and>
     s' = estimateTransform ext (cb_views_vec s5) s5"
  using assms initial_step_fields [of ext s]
  by (auto simp: perform_def Let_def split: sum.splits)

text \<open>
  The depth data that the first loop of the pipeline appends to the store, one for each
  view, and the state of the estimation object after the three phases, run on the store so
  extended.
\<close>

definition new_depth_data :: "externals \<Rightarrow> Calibration \<Rightarrow> CheckerboardViews option list \<Rightarrow> DepthData list" where
  "new_depth_data ext s views =
     map (\<lambda>v. addDepthData ext (depthData (view_data (the v)))
                (transform_checkerboard ext (colorCheckerboard (the v)) (color_pose (color_sensor s))))
       views"

definition estimated :: "externals \<Rightarrow> Calibration \<Rightarrow> estimation_state" where
  "estimated ext s =
     estimateGlobalModel ext
       (estimateLocalModelReverse ext
          (estimateLocalModel ext
             \<lparr>est_heap = depth_data_heap s @ new_depth_data ext s (cb_views_vec s),
              est_local_model = local_model s, est_global_model = global_model s\<rparr>))"

lemma add_depth_data_loop_data:
  assumes "for_loop [0..<n] (add_depth_data ext) s = Inr s'" "n \<le> length (cb_views_vec s)"
  shows "depth_data_vec s' = depth_data_vec s @ map (\<lambda>i. length (depth_data_heap s) + i) [0..<n] \<and>
     depth_data_heap s' = depth_data_heap s @ new_depth_data ext s (take n (cb_views_vec s)) \<and>
     local_model s' = local_model s \<and> global_model s' = global_model s"
proof (rule for_loop_result [OF assms(1), where I = "\<lambda>k t.
        cb_views_vec t = cb_views_vec s \<and> color_sensor t = color_sensor s \<and>
        depth_data_vec t = depth_data_vec s @ map (\<lambda>i. length (depth_data_heap s) + i) [0..<k] \<and>
        depth_data_heap t = depth_data_heap s @ new_depth_data ext s (take k (cb_views_vec s)) \<and>
        local_model t = local_model s \<and> global_model t = global_model s", THEN conjunct2, THEN conjunct2])
  show "cb_views_vec s = cb_views_vec s \<and> color_sensor s = color_sensor s \<and>
        depth_data_vec s = depth_data_vec s @ map (\<lambda>i. length (depth_data_heap s) + i) [0..<0] \<and>
        depth_data_heap s = depth_data_heap s @ new_depth_data ext s (take 0 (cb_views_vec s)) \<and>
        local_model s = local_model s \<and> global_model s = global_model s"
    by (simp add: new_depth_data_def)
next
  fix k t t'
  assume k: "k < n"
    and t: "cb_views_vec t = cb_views_vec s \<and> color_sensor t = color_sensor s \<and>
        depth_data_vec t = depth_data_vec s @ map (\<lambda>i. length (depth_data_heap s) + i) [0..<k] \<and>
        depth_data_heap t = depth_data_heap s @ new_depth_data ext s (take k (cb_views_vec s)) \<and>
        local_model t = local_model s \<and> global_model t = global_model s"
    and step: "add_depth_data ext k t = Inr t'"
  have kl: "k < length (cb_views_vec s)"
    using k assms(2) by simp
  have tk: "take (Suc k) (cb_views_vec s) = take k (cb_views_vec s) @ [cb_views_vec s ! k]"
    using kl by (rule take_Suc_conv_app_nth)
  have lh: "length (depth_data_heap t) = length (depth_data_heap s) + k"
    using t kl by (simp add: new_depth_data_def)
  from step obtain v where v: "cb_views_vec s ! k = Some v"
    using t by (auto simp: add_depth_data_def split: option.splits)
  have t': "t' = t\<lparr>depth_data_vec := depth_data_vec t @ [length (depth_data_heap t)],
                  depth_data_heap := depth_data_heap t @
                    [addDepthData ext (depthData (view_data v))
                       (transform_checkerboard ext (colorCheckerboard v) (color_pose (color_sensor t)))],
                  trace := trace t @ [AddDepthData k]\<rparr>"
    using step t v by (auto simp: add_depth_data_def Let_def split: option.splits)
  show "cb_views_vec t' = cb_views_vec s \<and> color_sensor t' = color_sensor s \<and>
        depth_data_vec t' = depth_data_vec s @ map (\<lambda>i. length (depth_data_heap s) + i) [0..<Suc k] \<and>
        depth_data_heap t' = depth_data_heap s @ new_depth_data ext s (take (Suc k) (cb_views_vec s)) \<and>
        local_model t' = local_model s \<and> global_model t' = global_model s"
    unfolding t' tk using t lh v by (simp add: new_depth_data_def)
qed

lemma run_phase_data:
  assumes "run_phase phase e s = Inr s'"
  shows "\<lparr>est_heap = depth_data_heap s', est_local_model = local_model s',
          est_global_model = global_model s'\<rparr> =
         phase \<lparr>est_heap = depth_data_heap s, est_local_model = local_model s,
                est_global_model = global_model s\<rparr>"
  using assms by (auto simp: run_phase_def Let_def split: option.splits)

lemma keep_or_reset_loop_data:
  assumes "for_loop [0..<n] (keep_or_reset ext) s = Inr s'" "n \<le> length (cb_views_vec s)"
  shows "\<forall>i < n. \<exists>v d. cb_views_vec s ! i = Some v \<and> depth_data_at s i = Inr d"
proof (rule for_loop_result [OF assms(1), where I = "\<lambda>k t.
        (\<forall>i. k \<le> i \<longrightarrow> i < length (cb_views_vec s) \<longrightarrow> cb_views_vec t ! i = cb_views_vec s ! i) \<and>
        length (cb_views_vec t) = length (cb_views_vec s) \<and>
        depth_data_vec t = depth_data_vec s \<and> depth_data_heap t = depth_data_heap s \<and>
        (\<forall>i < k. \<exists>v d. cb_views_vec s ! i = Some v \<and> depth_data_at s i = Inr d)",
      THEN conjunct2, THEN conjunct2, THEN conjunct2, THEN conjunct2])
  show "(\<forall>i. 0 \<le> i \<longrightarrow> i < length (cb_views_vec s) \<longrightarrow> cb_views_vec s ! i = cb_views_vec s ! i) \<and>
        length (cb_views_vec s) = length (cb_views_vec s) \<and>
        depth_data_vec s = depth_data_vec s \<and> depth_data_heap s = depth_data_heap s \<and>
        (\<forall>i < 0. \<exists>v d. cb_views_vec s ! i = Some v \<and> depth_data_at s i = Inr d)"
    by simp
next
  fix k t t'
  assume k: "k < n"
    and t: "(\<forall>i. k \<le> i \<longrightarrow> i < length (cb_views_vec s) \<longrightarrow> cb_views_vec t ! i = cb_views_vec s ! i) \<and>
        length (cb_views_vec t) = length (cb_views_vec s) \<and>
        depth_data_vec t = depth_data_vec s \<and> depth_data_heap t = depth_data_heap s \<and>
        (\<forall>i < k. \<exists>v d. cb_views_vec s ! i = Some v \<and> depth_data_at s i = Inr d)"
    and step: "keep_or_reset ext k t = Inr t'"
  have kl: "k < length (cb_views_vec s)"
    using k assms(2) by simp
  have cur: "cb_views_vec t ! k = cb_views_vec s ! k"
    using t kl by simp
  have dd: "depth_data_at t k = depth_data_at s k"
    using t by (simp add: depth_data_at_def)
  from step obtain v d where vd: "cb_views_vec s ! k = Some v" "depth_data_at s k = Inr d"
    unfolding keep_or_reset_def cur dd by (auto split: option.splits sum.splits)
  from step obtain x where t': "t' = t\<lparr>cb_views_vec := (cb_views_vec t)[k := x]\<rparr>"
    unfolding keep_or_reset_def cur dd vd by (auto split: if_splits)
  show "(\<forall>i. Suc k \<le> i \<longrightarrow> i < length (cb_views_vec s) \<longrightarrow> cb_views_vec t' ! i = cb_views_vec s ! i) \<and>
        length (cb_views_vec t') = length (cb_views_vec s) \<and>
        depth_data_vec t' = depth_data_vec s \<and> depth_data_heap t' = depth_data_heap s \<and>
        (\<forall>i < Suc k. \<exists>v d. cb_views_vec s ! i = Some v \<and> depth_data_at s i = Inr d)"
    unfolding t' using t vd by (auto simp: less_Suc_eq)
qed

text \<open>
  What the pipeline leaves: the depth data of the views, appended to the store and passed
  through the three phases in their order, and at every position the view with the
  re-estimated plane, or null when the plane of its depth data was not extracted.
\<close>

lemma undistortion_pipeline_data:
  assumes "undistortion_pipeline ext s = Inr s'"
  shows "depth_data_vec s' =
       depth_data_vec s @ map (\<lambda>i. length (depth_data_heap s) + i) [0..<length (cb_views_vec s)] \<and>
     \<lparr>est_heap = depth_data_heap s', est_local_model = local_model s',
      est_global_model = global_model s'\<rparr> = estimated ext s \<and>
     length (cb_views_vec s') = length (cb_views_vec s) \<and>
     (\<forall>i < length (cb_views_vec s). \<exists>v d.
        cb_views_vec s ! i = Some v \<and> depth_data_at s' i = Inr d \<and>
        cb_views_vec s' ! i =
          (if plane_extracted d then Some (setPlaneInliers ext v (estimated_plane d)) else None))"
proof -
  from assms obtain s1 s2 s3 s4 where
    l1: "for_loop [0..<length (cb_views_vec s)] (add_depth_data ext) s = Inr s1" and
    p2: "run_phase (estimateLocalModel ext) EstimateLocalModel s1 = Inr s2" and
    p3: "run_phase (estimateLocalModelReverse ext) EstimateLocalModelReverse s2 = Inr s3" and
    p4: "run_phase (estimateGlobalModel ext) EstimateGlobalModel s3 = Inr s4" and
    l5: "for_loop [0..<length (cb_views_vec s4)] (keep_or_reset ext) s4 = Inr s'"
    by (auto simp: undistortion_pipeline_def split: sum.splits)
  note a = add_depth_data_loop [OF l1] and b = run_phase_result [OF p2]
    and c = run_phase_result [OF p3] and d = run_phase_result [OF p4]
  have v4: "cb_views_vec s4 = cb_views_vec s"
    using a b c d by simp
  have a': "depth_data_vec s1 =
        depth_data_vec s @ map (\<lambda>i. length (depth_data_heap s) + i) [0..<length (cb_views_vec s)]"
    "depth_data_heap s1 = depth_data_heap s @ new_depth_data ext s (cb_views_vec s)"
    "local_model s1 = local_model s" "global_model s1 = global_model s"
    using add_depth_data_loop_data [OF l1] by simp_all
  have dv: "depth_data_vec s4 =
        depth_data_vec s @ map (\<lambda>i. length (depth_data_heap s) + i) [0..<length (cb_views_vec s)]"
    using a' b c d by simp
  have est: "\<lparr>est_heap = depth_data_heap s4, est_local_model = local_model s4,
      est_global_model = global_model s4\<rparr> = estimated ext s"
    unfolding run_phase_data [OF p4] run_phase_data [OF p3] run_phase_data [OF p2] a'
    by (simp add: estimated_def)
  from keep_or_reset_loop [OF l5]
  have e: "s' = s4\<lparr>cb_views_vec := map (kept ext s4) [0..<length (cb_views_vec s4)] @
                drop (length (cb_views_vec s4)) (cb_views_vec s4)\<rparr>"
    by simp
  have f: "depth_data_vec s' = depth_data_vec s4" "depth_data_heap s' = depth_data_heap s4"
    "local_model s' = local_model s4" "global_model s' = global_model s4"
    "cb_views_vec s' = map (kept ext s4) [0..<length (cb_views_vec s)]"
    by (subst e, simp add: v4)+
  have at: "depth_data_at s' i = depth_data_at s4 i" for i
    by (simp add: depth_data_at_def f)
  have "\<exists>v d. cb_views_vec s ! i = Some v \<and> depth_data_at s' i = Inr d \<and>
        cb_views_vec s' ! i =
          (if plane_extracted d then Some (setPlaneInliers ext v (estimated_plane d)) else None)"
    if i: "i < length (cb_views_vec s)" for i
  proof -
    from keep_or_reset_loop_data [OF l5] i obtain v d where
      vd: "cb_views_vec s4 ! i = Some v" "depth_data_at s4 i = Inr d"
      using v4 by auto
    have "cb_views_vec s' ! i = kept ext s4 i"
      using i by (simp add: f)
    then show ?thesis
      using vd v4 by (simp add: kept_def at)
  qed
  then show ?thesis
    using dv est f by simp
qed

text \<open>
  C1, as amended. A successful \<^verbatim>\<open>perform\<close> with the estimation of the undistortion model
  requested extracts the views of all frames; hands the depth data of every view to the
  estimation object, in the order of the views; runs \<^verbatim>\<open>estimateLocalModel\<close>,
  \<^verbatim>\<open>estimateLocalModelReverse\<close> and \<^verbatim>\<open>estimateGlobalModel\<close> in this order, so that the depth
  data and the two models are what the third phase makes of the result of the second on the
  result of the first; keeps every view whose depth data, after the three phases, has its
  plane extracted, with that plane, and resets every other view to null; and then runs the
  plane-based transform estimation (\<^verbatim>\<open>estimateTransform\<close>) on the views that remain. Without
  that request it runs the plane-based transform estimation on the stored views. In neither
  case is the solver of the transform-only optimization called: \<^verbatim>\<open>optimizeTransform\<close>, which
  calls it, is what \<^verbatim>\<open>optimize\<close> runs when the estimation of the undistortion model is not
  requested.
\<close>

theorem perform_sequence:
  assumes "perform ext s = Inr s'"
    and "s0 = initial_step ext s"
    and "views = extractAll ext (color_pose (color_sensor s0)) (cb_vec s) (data_vec s) (cb_views_vec s)"
  shows "(estimate_depth_und_model s \<longrightarrow>
      cb_views_vec (extract_all_views ext s0) = views \<and>
      depth_data_vec s' =
        depth_data_vec s0 @ map (\<lambda>i. length (depth_data_heap s0) + i) [0..<length views] \<and>
      \<lparr>est_heap = depth_data_heap s', est_local_model = local_model s',
       est_global_model = global_model s'\<rparr> =
        estimateGlobalModel ext
          (estimateLocalModelReverse ext
             (estimateLocalModel ext
                \<lparr>est_heap = depth_data_heap s0 @ new_depth_data ext s0 views,
                 est_local_model = local_model s0, est_global_model = global_model s0\<rparr>)) \<and>
      length (cb_views_vec s') = length views \<and>
      (\<forall>i < length views. \<exists>v d.
         views ! i = Some v \<and> depth_data_at s' i = Inr d \<and>
         cb_views_vec s' ! i =
           (if plane_extracted d then Some (setPlaneInliers ext v (estimated_plane d)) else None)) \<and>
      trace s' = trace s0 @ [ExtractAll] @ map AddDepthData [0..<length views] @
        [EstimateLocalModel, EstimateLocalModelReverse, EstimateGlobalModel,
         PlaneBasedExtrinsicCalibration (count_views (cb_views_vec s'))]) \<and>
     (\<not> estimate_depth_und_model s \<longrightarrow>
        cb_views_vec s' = cb_views_vec s \<and>
        trace s' = trace s0 @ [PlaneBasedExtrinsicCalibration (count_views (cb_views_vec s))]) \<and>
     color_sensor s' =
       fst (plane_calibration ext (plane_pairs (cb_views_vec s')) (color_sensor s0, depth_sensor s0)) \<and>
     depth_sensor s' =
       snd (plane_calibration ext (plane_pairs (cb_views_vec s')) (color_sensor s0, depth_sensor s0)) \<and>
     (SolveTransform \<in> set (trace s') \<longrightarrow> SolveTransform \<in> set (trace s)) \<and>
     (\<not> estimate_depth_und_model t \<longrightarrow> optimize ext t = optimizeTransform ext (cb_views_vec t) t) \<and>
     (optimizeTransform ext vs t = Inr t' \<longrightarrow> trace t' = trace t @ [SolveTransform])"
proof -
  have o: "\<not> estimate_depth_und_model t \<longrightarrow> optimize ext t = optimizeTransform ext (cb_views_vec t) t"
    by (simp add: optimize_def)
  have ot: "optimizeTransform ext vs t = Inr t' \<longrightarrow> trace t' = trace t @ [SolveTransform]"
    by (auto simp: optimizeTransform_def Let_def split: sum.splits)
  show ?thesis
  proof (cases "estimate_depth_und_model s")
    case False
    then have "s' = estimateTransform ext (cb_views_vec s0) s0"
      using assms(1,2) initial_step_fields [of ext s] by (simp add: perform_def Let_def)
    then show ?thesis
      using False o ot initial_step_fields [of ext s] initial_step_trace [of ext s]
      by (auto simp: assms(2) estimateTransform_plane_pairs plane_pairs_count)
  next
    case True
    let ?sx = "extract_all_views ext s0"
    from perform_undistortion [OF assms(1) True] obtain s5 where
      p: "undistortion_pipeline ext ?sx = Inr s5" and
      e: "s' = estimateTransform ext (cb_views_vec s5) s5"
      unfolding assms(2) by blast
    have x: "cb_views_vec ?sx = views"
      "trace ?sx = trace s0 @ [ExtractAll]"
      "color_sensor ?sx = color_sensor s0" "depth_sensor ?sx = depth_sensor s0"
      "depth_data_vec ?sx = depth_data_vec s0" "depth_data_heap ?sx = depth_data_heap s0"
      "local_model ?sx = local_model s0" "global_model ?sx = global_model s0"
      using initial_step_fields [of ext s] by (simp_all add: extract_all_views_def assms(2,3))
    from undistortion_pipeline_result [OF p] have r:
      "trace s5 = trace ?sx @ map AddDepthData [0..<length (cb_views_vec ?sx)] @
         [EstimateLocalModel, EstimateLocalModelReverse, EstimateGlobalModel]"
      "color_sensor s5 = color_sensor ?sx" "depth_sensor s5 = depth_sensor ?sx"
      by blast+
    note dat = undistortion_pipeline_data [OF p, unfolded estimated_def x]
    have f: "cb_views_vec s' = cb_views_vec s5" "depth_data_vec s' = depth_data_vec s5"
      "depth_data_heap s' = depth_data_heap s5" "local_model s' = local_model s5"
      "global_model s' = global_model s5"
      by (simp_all add: e estimateTransform_plane_pairs)
    have at: "depth_data_at s' i = depth_data_at s5 i" for i
      by (simp add: depth_data_at_def f)
    have t': "trace s' = trace s5 @ [PlaneBasedExtrinsicCalibration (count_views (cb_views_vec s5))]"
      by (simp add: e estimateTransform_plane_pairs plane_pairs_count)
    have c': "color_sensor s' =
        fst (plane_calibration ext (plane_pairs (cb_views_vec s5)) (color_sensor s5, depth_sensor s5))"
      "depth_sensor s' =
        snd (plane_calibration ext (plane_pairs (cb_views_vec s5)) (color_sensor s5, depth_sensor s5))"
      by (simp_all add: e estimateTransform_plane_pairs)
    have nd: "new_depth_data ext ?sx views = new_depth_data ext s0 views"
      by (simp add: new_depth_data_def x)
    have main: "cb_views_vec ?sx = views \<and>
      depth_data_vec s' =
        depth_data_vec s0 @ map (\<lambda>i. length (depth_data_heap s0) + i) [0..<length views] \<and>
      \<lparr>est_heap = depth_data_heap s', est_local_model = local_model s',
       est_global_model = global_model s'\<rparr> =
        estimateGlobalModel ext
          (estimateLocalModelReverse ext
             (estimateLocalModel ext
                \<lparr>est_heap = depth_data_heap s0 @ new_depth_data ext s0 views,
                 est_local_model = local_model s0, est_global_model = global_model s0\<rparr>)) \<and>
      length (cb_views_vec s') = length views \<and>
      (\<forall>i < length views. \<exists>v d.
         views ! i = Some v \<and> depth_data_at s' i = Inr d \<and>
         cb_views_vec s' ! i =
           (if plane_extracted d then Some (setPlaneInliers ext v (estimated_plane d)) else None))"
      using dat x(1) by (simp add: f at nd)
    have tr: "trace s' = trace s0 @ [ExtractAll] @ map AddDepthData [0..<length views] @
        [EstimateLocalModel, EstimateLocalModelReverse, EstimateGlobalModel,
         PlaneBasedExtrinsicCalibration (count_views (cb_views_vec s'))]"
      by (simp add: t' r(1) x f)
    have st: "SolveTransform \<in> set (trace s') \<longrightarrow> SolveTransform \<in> set (trace s)"
      using initial_step_trace [of ext s] by (auto simp: tr assms(2))
    have cs: "color_sensor s' =
       fst (plane_calibration ext (plane_pairs (cb_views_vec s')) (color_sensor s0, depth_sensor s0))"
      "depth_sensor s' =
       snd (plane_calibration ext (plane_pairs (cb_views_vec s')) (color_sensor s0, depth_sensor s0))"
      using c' by (simp_all add: f r x)
    show ?thesis
      using True main tr st cs o ot by blast
  qed
qed


lemma plane_pairs_filter: "plane_pairs (filter (\<lambda>v. v \<noteq> None) views) = plane_pairs views"
  by (induction views) (auto simp: plane_pairs_simps)

lemma undistorted_views_result:
  assumes "undistorted_views ext s = Inr und"
  shows "length und = count_views (cb_views_vec s) \<and> (\<forall>u \<in> set und. u \<noteq> None)"
proof -
  have "length und = count_views (take (length (cb_views_vec s)) (cb_views_vec s)) \<and>
      (\<forall>u \<in> set und. u \<noteq> None)"
  proof (rule for_loop_result [OF assms [unfolded undistorted_views_def], where I = "\<lambda>k u.
        length u = count_views (take k (cb_views_vec s)) \<and> (\<forall>x \<in> set u. x \<noteq> None)"])
    show "length [] = count_views (take 0 (cb_views_vec s)) \<and> (\<forall>x \<in> set []. x \<noteq> None)"
      by (simp add: count_views_def)
  next
    fix k u u'
    assume k: "k < length (cb_views_vec s)"
      and u: "length u = count_views (take k (cb_views_vec s)) \<and> (\<forall>x \<in> set u. x \<noteq> None)"
      and step: "add_undistorted_view ext s k u = Inr u'"
    have tk: "take (Suc k) (cb_views_vec s) = take k (cb_views_vec s) @ [cb_views_vec s ! k]"
      using k by (rule take_Suc_conv_app_nth)
    show "length u' = count_views (take (Suc k) (cb_views_vec s)) \<and> (\<forall>x \<in> set u'. x \<noteq> None)"
      using u step unfolding tk
      by (auto simp: add_undistorted_view_def count_views_def Let_def split: option.splits sum.splits)
  qed
  then show ?thesis by simp
qed

text \<open>
  C7. The undistortion pipeline of \<^verbatim>\<open>perform\<close> only resets views: the vector keeps its
  length, an entry that holds a view afterwards held one before, and the number of views
  does not grow. The plane-based transform estimation gives the same result with the null
  entries removed, and the copies that \<^verbatim>\<open>optimize\<close> hands to the full optimization are made
  from the entries that are not null, one for each.
\<close>

theorem views_only_reset:
  "(undistortion_pipeline ext s = Inr s' \<longrightarrow>
      only_reset (cb_views_vec s) (cb_views_vec s') \<and>
      count_views (cb_views_vec s') \<le> count_views (cb_views_vec s)) \<and>
   (perform ext s = Inr s' \<and> estimate_depth_und_model s \<longrightarrow>
      count_views (cb_views_vec s') \<le>
        count_views (extractAll ext (color_pose (color_sensor (initial_step ext s))) (cb_vec s)
                       (data_vec s) (cb_views_vec s))) \<and>
   estimateTransform ext views s = estimateTransform ext (filter (\<lambda>v. v \<noteq> None) views) s \<and>
   (undistorted_views ext s = Inr und \<longrightarrow>
      length und = count_views (cb_views_vec s) \<and> (\<forall>u \<in> set und. u \<noteq> None) \<and>
      (estimate_depth_und_model s \<longrightarrow> optimize ext s = optimizeAll ext und s))"
proof -
  have pipe: "only_reset (cb_views_vec t) (cb_views_vec t')"
    if "undistortion_pipeline ext t = Inr t'" for t t'
    using undistortion_pipeline_result [OF that] by (auto simp: only_reset_def)
  have a: "undistortion_pipeline ext s = Inr s' \<longrightarrow>
      only_reset (cb_views_vec s) (cb_views_vec s') \<and>
      count_views (cb_views_vec s') \<le> count_views (cb_views_vec s)"
    using pipe only_reset_count by blast
  have b: "count_views (cb_views_vec s') \<le>
        count_views (extractAll ext (color_pose (color_sensor (initial_step ext s))) (cb_vec s)
                       (data_vec s) (cb_views_vec s))"
    if "perform ext s = Inr s'" "estimate_depth_und_model s"
  proof -
    from perform_undistortion [OF that] obtain s5 where
      p: "undistortion_pipeline ext (extract_all_views ext (initial_step ext s)) = Inr s5" and
      e: "s' = estimateTransform ext (cb_views_vec s5) s5"
      by blast
    have "count_views (cb_views_vec s5) \<le>
        count_views (cb_views_vec (extract_all_views ext (initial_step ext s)))"
      using pipe [OF p] by (rule only_reset_count)
    then show ?thesis
      using initial_step_fields [of ext s]
      by (simp add: e estimateTransform_plane_pairs extract_all_views_def)
  qed
  have c: "estimateTransform ext views s = estimateTransform ext (filter (\<lambda>v. v \<noteq> None) views) s"
    by (simp only: estimateTransform_plane_pairs plane_pairs_filter)
  have d: "length und = count_views (cb_views_vec s) \<and> (\<forall>u \<in> set und. u \<noteq> None) \<and>
      (estimate_depth_und_model s \<longrightarrow> optimize ext s = optimizeAll ext und s)"
    if "undistorted_views ext s = Inr und"
    using undistorted_views_result [OF that] that by (simp add: optimize_def)
  show ?thesis
    using a b c d by blast
qed

section \<open>Further examples\<close>

text \<open>
  A calibration whose colour sensor already has a parent frame and a pose, with one view
  stored; the estimation of the undistortion model is not requested.
\<close>

definition example_with_views :: Calibration where
  "example_with_views =
     example_calibration\<lparr>color_sensor := example_color\<lparr>color_parent := Some ''depth''\<rparr>,
                          cb_views_vec := example_views\<rparr>"

lemma example_optimizeTransform:
  "optimizeTransform example_externals (cb_views_vec example_with_views) example_with_views =
     Inr (example_with_views
            \<lparr>color_sensor := (color_sensor example_with_views)
               \<lparr>color_pose := Pose (1, 2, 3) (AngleAxis 0 (0, 0, 0))\<rparr>,
             trace := [SolveTransform]\<rparr>)"
  by (simp add: optimizeTransform_def transform_problem_def add_transform_view_def
      example_with_views_def example_views_def example_view_def example_calibration_def
      new_Calibration_def example_externals_simps example_solve_def transform_options_def
      head3_def tail3_def Let_def)

theorem optimizeTransform_frame_witness:
  "optimizeTransform example_externals (cb_views_vec example_with_views) example_with_views =
     Inr (example_with_views
            \<lparr>color_sensor := (color_sensor example_with_views)
               \<lparr>color_pose := Pose (1, 2, 3) (AngleAxis 0 (0, 0, 0))\<rparr>,
             trace := [SolveTransform]\<rparr>) \<and>
   cb_views_vec (example_with_views
            \<lparr>color_sensor := (color_sensor example_with_views)
               \<lparr>color_pose := Pose (1, 2, 3) (AngleAxis 0 (0, 0, 0))\<rparr>,
             trace := [SolveTransform]\<rparr>) = example_views \<and>
   depth_sensor (example_with_views
            \<lparr>color_sensor := (color_sensor example_with_views)
               \<lparr>color_pose := Pose (1, 2, 3) (AngleAxis 0 (0, 0, 0))\<rparr>,
             trace := [SolveTransform]\<rparr>) = example_depth \<and>
   color_pose (color_sensor example_with_views) \<noteq> Pose (1, 2, 3) (AngleAxis 0 (0, 0, 0))"
proof -
  note inst = optimizeTransform_frame [OF example_optimizeTransform]
  have "cb_views_vec (example_with_views
            \<lparr>color_sensor := (color_sensor example_with_views)
               \<lparr>color_pose := Pose (1, 2, 3) (AngleAxis 0 (0, 0, 0))\<rparr>,
             trace := [SolveTransform]\<rparr>) = cb_views_vec example_with_views"
    using inst by (elim conjE)
  moreover have "depth_sensor (example_with_views
            \<lparr>color_sensor := (color_sensor example_with_views)
               \<lparr>color_pose := Pose (1, 2, 3) (AngleAxis 0 (0, 0, 0))\<rparr>,
             trace := [SolveTransform]\<rparr>) = depth_sensor example_with_views"
    using inst by (elim conjE)
  moreover have "cb_views_vec example_with_views = example_views"
    "depth_sensor example_with_views = example_depth"
    "color_pose (color_sensor example_with_views) \<noteq> Pose (1, 2, 3) (AngleAxis 0 (0, 0, 0))"
    by (simp_all add: example_with_views_def example_calibration_def new_Calibration_def
        example_color_def)
  ultimately show ?thesis
    using example_optimizeTransform by simp
qed







lemma example_perform_plain:
  "perform example_externals example_with_views =
     Inr (estimateTransform example_externals (cb_views_vec example_with_views) example_with_views)"
  by (simp add: perform_def initial_step_def example_with_views_def example_calibration_def
      new_Calibration_def Let_def)

lemma example_estimateTransform_trace:
  "trace (estimateTransform example_externals (cb_views_vec example_with_views) example_with_views) =
     [PlaneBasedExtrinsicCalibration 1]"
  by (simp add: estimateTransform_plane_pairs plane_pairs_simps example_with_views_def
      example_views_def example_calibration_def new_Calibration_def)

text \<open>
  On the calibration with one stored view, \<^verbatim>\<open>perform\<close> runs the plane-based estimation, once,
  and its result is not the result of the transform-only optimization.
\<close>

theorem perform_counterexample:
  "perform example_externals example_with_views =
     Inr (estimateTransform example_externals (cb_views_vec example_with_views) example_with_views) \<and>
   trace (estimateTransform example_externals (cb_views_vec example_with_views) example_with_views) =
     [PlaneBasedExtrinsicCalibration 1] \<and>
   perform example_externals example_with_views \<noteq>
     optimizeTransform example_externals (cb_views_vec example_with_views) example_with_views"
proof -
  have "estimateTransform example_externals (cb_views_vec example_with_views) example_with_views \<noteq>
      example_with_views
            \<lparr>color_sensor := (color_sensor example_with_views)
               \<lparr>color_pose := Pose (1, 2, 3) (AngleAxis 0 (0, 0, 0))\<rparr>,
             trace := [SolveTransform]\<rparr>"
  proof
    assume "estimateTransform example_externals (cb_views_vec example_with_views) example_with_views =
      example_with_views
            \<lparr>color_sensor := (color_sensor example_with_views)
               \<lparr>color_pose := Pose (1, 2, 3) (AngleAxis 0 (0, 0, 0))\<rparr>,
             trace := [SolveTransform]\<rparr>"
    then have "trace (estimateTransform example_externals (cb_views_vec example_with_views)
        example_with_views) = [SolveTransform]"
      by simp
    then show False
      by (simp add: example_estimateTransform_trace)
  qed
  then show ?thesis
    by (simp add: example_perform_plain example_estimateTransform_trace example_optimizeTransform)
qed

text \<open>
  A calibration that estimates the undistortion model, with two frames: the plane of the
  first is extracted and the plane of the second is not.
\<close>

definition example_und :: Calibration where
  "example_und =
     example_calibration
       \<lparr>color_sensor := example_color\<lparr>color_parent := Some ''depth''\<rparr>,
        estimate_depth_und_model := True,
        depth_undistortion_estimation := Some \<lparr>est_depthErrorFunction = [0, 0, 1], maxThreads = 8\<rparr>\<rparr>"

definition example_kept :: "CheckerboardViews option list" where
  "example_kept = [Some (example_view (example_frame 0 True)), None]"

lemma example_initial_step: "initial_step example_externals example_und = example_und"
  by (simp add: initial_step_def example_und_def example_calibration_def new_Calibration_def)

lemma example_pipeline:
  "\<exists>s'. undistortion_pipeline example_externals (extract_all_views example_externals example_und) = Inr s' \<and>
      cb_views_vec s' = example_kept \<and>
      (\<exists>und. undistorted_views example_externals s' = Inr und)"
  by (simp add: undistortion_pipeline_def extract_all_views_def add_depth_data_def run_phase_def
      keep_or_reset_def depth_data_at_def undistorted_views_def add_undistorted_view_def
      example_und_def example_calibration_def new_Calibration_def example_externals_simps
      example_view_def example_frame_def example_kept_def upt_2 Let_def)


theorem views_only_reset_witness:
  "\<exists>s' und.
     undistortion_pipeline example_externals (extract_all_views example_externals example_und) = Inr s' \<and>
     count_views (cb_views_vec (extract_all_views example_externals example_und)) = 2 \<and>
     cb_views_vec s' = example_kept \<and>
     count_views (cb_views_vec s') = 1 \<and>
     count_views (cb_views_vec s') \<le>
       count_views (cb_views_vec (extract_all_views example_externals example_und)) \<and>
     estimateTransform example_externals example_kept s' =
       estimateTransform example_externals [Some (example_view (example_frame 0 True))] s' \<and>
     undistorted_views example_externals s' = Inr und \<and> length und = 1 \<and>
     optimize example_externals s' = optimizeAll example_externals und s'"
proof -
  from example_pipeline obtain s' und where
    p: "undistortion_pipeline example_externals (extract_all_views example_externals example_und) = Inr s'"
    and k: "cb_views_vec s' = example_kept"
    and u: "undistorted_views example_externals s' = Inr und"
    by blast
  note pipe = views_only_reset [of example_externals
      "extract_all_views example_externals example_und" s' example_kept und, THEN conjunct1]
  note filt = views_only_reset [of example_externals s' s' example_kept und,
      THEN conjunct2, THEN conjunct2, THEN conjunct1]
  note copy = views_only_reset [of example_externals s' s' example_kept und,
      THEN conjunct2, THEN conjunct2, THEN conjunct2]
  have le: "count_views (cb_views_vec s') \<le>
       count_views (cb_views_vec (extract_all_views example_externals example_und))"
    using pipe p by simp
  have c2: "count_views (cb_views_vec (extract_all_views example_externals example_und)) = 2"
    by (simp add: extract_all_views_def count_views_def example_externals_simps example_und_def
        example_calibration_def new_Calibration_def)
  have c1: "count_views (cb_views_vec s') = 1"
    by (simp add: k example_kept_def count_views_def)
  have f: "estimateTransform example_externals example_kept s' =
       estimateTransform example_externals [Some (example_view (example_frame 0 True))] s'"
    using filt by (simp add: example_kept_def)
  have flag: "estimate_depth_und_model s'"
    using undistortion_pipeline_result [OF p]
    by (auto simp: extract_all_views_def example_und_def)
  have "length und = count_views (cb_views_vec s') \<and> (\<forall>u \<in> set und. u \<noteq> None) \<and>
      (estimate_depth_und_model s' \<longrightarrow>
         optimize example_externals s' = optimizeAll example_externals und s')"
    using copy u by simp
  then have o: "length und = 1" "optimize example_externals s' = optimizeAll example_externals und s'"
    using c1 flag by simp_all
  from p c2 k c1 le f u o show ?thesis
    by blast
qed

text \<open>
  Collaborators whose three phases do not commute: the first marks every plane as extracted,
  the second withdraws the mark where the cloud is not dense, the third records in the
  estimated plane whether the mark is set. On the calibration with two frames the result
  below is reached by this order of the phases only.
\<close>

definition example_ordered :: externals where
  "example_ordered =
     example_externals
       \<lparr>estimateLocalModel :=
          (\<lambda>st. st\<lparr>est_heap := map (\<lambda>d. d\<lparr>plane_extracted := True\<rparr>) (est_heap st)\<rparr>),
        estimateLocalModelReverse :=
          (\<lambda>st. st\<lparr>est_heap :=
             map (\<lambda>d. d\<lparr>plane_extracted := plane_extracted d \<and> is_dense (cloud d)\<rparr>) (est_heap st)\<rparr>),
        estimateGlobalModel :=
          (\<lambda>st. st\<lparr>est_heap :=
             map (\<lambda>d. d\<lparr>estimated_plane :=
                    (estimated_plane d)\<lparr>std_dev := if plane_extracted d then 1 else 2\<rparr>\<rparr>)
               (est_heap st)\<rparr>)\<rparr>"

definition example_depth_data :: "nat \<Rightarrow> bool \<Rightarrow> DepthData" where
  "example_depth_data n extracted =
     \<lparr>cloud = depthData (example_frame n extracted),
      undistorted_cloud = depthData (example_frame n extracted),
      estimated_plane = example_plane\<lparr>std_dev := if extracted then 1 else 2\<rparr>,
      plane_extracted = extracted\<rparr>"

lemma example_ordered_simps:
  "extractAll example_ordered = extractAll example_externals"
  "transform_checkerboard example_ordered = transform_checkerboard example_externals"
  "addDepthData example_ordered = addDepthData example_externals"
  "setPlaneInliers example_ordered = setPlaneInliers example_externals"
  "plane_calibration example_ordered = plane_calibration example_externals"
  "estimateLocalModel example_ordered =
     (\<lambda>st. st\<lparr>est_heap := map (\<lambda>d. d\<lparr>plane_extracted := True\<rparr>) (est_heap st)\<rparr>)"
  "estimateLocalModelReverse example_ordered =
     (\<lambda>st. st\<lparr>est_heap :=
        map (\<lambda>d. d\<lparr>plane_extracted := plane_extracted d \<and> is_dense (cloud d)\<rparr>) (est_heap st)\<rparr>)"
  "estimateGlobalModel example_ordered =
     (\<lambda>st. st\<lparr>est_heap :=
        map (\<lambda>d. d\<lparr>estimated_plane :=
               (estimated_plane d)\<lparr>std_dev := if plane_extracted d then 1 else 2\<rparr>\<rparr>)
          (est_heap st)\<rparr>)"
  by (simp_all add: example_ordered_def)

lemma example_ordered_pipeline:
  "\<exists>s'. undistortion_pipeline example_ordered (extract_all_views example_ordered example_und) = Inr s'"
  by (simp add: undistortion_pipeline_def extract_all_views_def add_depth_data_def run_phase_def
      keep_or_reset_def depth_data_at_def
      example_und_def example_calibration_def new_Calibration_def example_ordered_simps
      example_externals_simps example_view_def example_frame_def upt_2 Let_def)

lemma example_ordered_initial_step: "initial_step example_ordered example_und = example_und"
  by (simp add: initial_step_def example_und_def example_calibration_def new_Calibration_def)

theorem perform_sequence_witness:
  "(\<exists>s'. perform example_ordered example_und = Inr s' \<and>
     depth_data_vec s' = [0, 1] \<and>
     depth_data_heap s' = [example_depth_data 0 True, example_depth_data 1 False] \<and>
     cb_views_vec s' =
       [Some ((example_view (example_frame 0 True))
                \<lparr>depthPlane := Some (example_plane\<lparr>std_dev := 1\<rparr>)\<rparr>), None] \<and>
     trace s' = [ExtractAll, AddDepthData 0, AddDepthData 1, EstimateLocalModel,
                 EstimateLocalModelReverse, EstimateGlobalModel, PlaneBasedExtrinsicCalibration 1] \<and>
     color_pose (color_sensor s') = Pose (1, 0, 0) (Quaternion 1 0 0 0)) \<and>
   optimize example_externals example_with_views =
     optimizeTransform example_externals (cb_views_vec example_with_views) example_with_views \<and>
   trace (example_with_views
            \<lparr>color_sensor := (color_sensor example_with_views)
               \<lparr>color_pose := Pose (1, 2, 3) (AngleAxis 0 (0, 0, 0))\<rparr>,
             trace := [SolveTransform]\<rparr>) = trace example_with_views @ [SolveTransform]"
proof -
  let ?views = "[Some ((example_view (example_frame 0 True))\<lparr>depthPlane := None\<rparr>),
                 Some ((example_view (example_frame 1 False))\<lparr>depthPlane := None\<rparr>)]"
  from example_ordered_pipeline obtain s5 where
    p: "undistortion_pipeline example_ordered (extract_all_views example_ordered example_und) = Inr s5"
    by blast
  have f: "estimate_depth_und_model example_und"
    by (simp add: example_und_def)
  have run: "perform example_ordered example_und =
      Inr (estimateTransform example_ordered (cb_views_vec s5) s5)"
    using p f by (simp add: perform_def example_ordered_initial_step Let_def)
  let ?s' = "estimateTransform example_ordered (cb_views_vec s5) s5"
  have s0: "example_und = initial_step example_ordered example_und"
    by (simp only: example_ordered_initial_step)
  have views: "?views = extractAll example_ordered (color_pose (color_sensor example_und))
      (cb_vec example_und) (data_vec example_und) (cb_views_vec example_und)"
    by (simp add: example_ordered_simps example_externals_simps example_und_def
        example_calibration_def new_Calibration_def)
  have nf: "\<not> estimate_depth_und_model example_with_views"
    by (simp add: example_with_views_def example_calibration_def new_Calibration_def)
  note inst = perform_sequence [OF run s0 views, of example_with_views
      "cb_views_vec example_with_views"
      "example_with_views
            \<lparr>color_sensor := (color_sensor example_with_views)
               \<lparr>color_pose := Pose (1, 2, 3) (AngleAxis 0 (0, 0, 0))\<rparr>,
             trace := [SolveTransform]\<rparr>"]
  note und = inst [THEN conjunct1, rule_format, OF f]
  have empty: "depth_data_vec example_und = []" "depth_data_heap example_und = []"
    "trace example_und = []"
    by (simp_all add: example_und_def example_calibration_def new_Calibration_def)
  have dv: "depth_data_vec ?s' = [0, 1]"
    using und [THEN conjunct2, THEN conjunct1] by (simp add: empty upt_2)
  have "\<lparr>est_heap = depth_data_heap ?s', est_local_model = local_model ?s',
       est_global_model = global_model ?s'\<rparr> =
        estimateGlobalModel example_ordered
          (estimateLocalModelReverse example_ordered
             (estimateLocalModel example_ordered
                \<lparr>est_heap = depth_data_heap example_und @ new_depth_data example_ordered example_und ?views,
                 est_local_model = local_model example_und,
                 est_global_model = global_model example_und\<rparr>))"
    using und [THEN conjunct2, THEN conjunct2, THEN conjunct1] .
  also have "\<dots> = \<lparr>est_heap = [example_depth_data 0 True, example_depth_data 1 False],
       est_local_model = local_model example_und, est_global_model = global_model example_und\<rparr>"
    by (simp add: empty new_depth_data_def example_ordered_simps example_externals_simps
        example_depth_data_def example_view_def example_frame_def)
  finally have heap: "depth_data_heap ?s' = [example_depth_data 0 True, example_depth_data 1 False]"
    by simp
  have at: "depth_data_at ?s' 0 = Inr (example_depth_data 0 True)"
    "depth_data_at ?s' 1 = Inr (example_depth_data 1 False)"
    unfolding depth_data_at_def dv heap by simp_all
  have len: "length (cb_views_vec ?s') = 2"
    using und [THEN conjunct2, THEN conjunct2, THEN conjunct2, THEN conjunct1] by simp
  note each = und [THEN conjunct2, THEN conjunct2, THEN conjunct2, THEN conjunct2, THEN conjunct1,
      rule_format]
  have v0: "cb_views_vec ?s' ! 0 =
      Some ((example_view (example_frame 0 True))\<lparr>depthPlane := Some (example_plane\<lparr>std_dev := 1\<rparr>)\<rparr>)"
    using each [of 0] unfolding at
    by (auto simp: example_depth_data_def example_ordered_simps example_externals_simps)
  have v1: "cb_views_vec ?s' ! 1 = None"
    using each [of 1] unfolding at
    by (auto simp: example_depth_data_def)
  have v': "cb_views_vec ?s' =
       [Some ((example_view (example_frame 0 True))
                \<lparr>depthPlane := Some (example_plane\<lparr>std_dev := 1\<rparr>)\<rparr>), None]"
    using len v0 v1 by (intro nth_equalityI) (auto simp: less_Suc_eq numeral_2_eq_2)
  have c1: "count_views (cb_views_vec ?s') = 1"
    by (simp add: v' count_views_def)
  have tr: "trace ?s' = [ExtractAll, AddDepthData 0, AddDepthData 1, EstimateLocalModel,
                 EstimateLocalModelReverse, EstimateGlobalModel, PlaneBasedExtrinsicCalibration 1]"
    using und [THEN conjunct2, THEN conjunct2, THEN conjunct2, THEN conjunct2, THEN conjunct2]
    by (simp add: c1 empty upt_2)
  have "color_sensor ?s' =
       fst (plane_calibration example_ordered (plane_pairs (cb_views_vec ?s'))
              (color_sensor example_und, depth_sensor example_und))"
    using inst by (elim conjE)
  then have pose: "color_pose (color_sensor ?s') = Pose (1, 0, 0) (Quaternion 1 0 0 0)"
    by (simp add: v' plane_pairs_simps example_ordered_simps example_externals_simps)
  note plain = perform_sequence [OF example_perform_plain refl refl, of example_with_views
      "cb_views_vec example_with_views"
      "example_with_views
            \<lparr>color_sensor := (color_sensor example_with_views)
               \<lparr>color_pose := Pose (1, 2, 3) (AngleAxis 0 (0, 0, 0))\<rparr>,
             trace := [SolveTransform]\<rparr>"]
  have opt: "optimize example_externals example_with_views =
     optimizeTransform example_externals (cb_views_vec example_with_views) example_with_views"
    using plain [THEN conjunct2, THEN conjunct2, THEN conjunct2, THEN conjunct2, THEN conjunct2,
        THEN conjunct1] nf by simp
  have ot: "trace (example_with_views
            \<lparr>color_sensor := (color_sensor example_with_views)
               \<lparr>color_pose := Pose (1, 2, 3) (AngleAxis 0 (0, 0, 0))\<rparr>,
             trace := [SolveTransform]\<rparr>) = trace example_with_views @ [SolveTransform]"
    using plain [THEN conjunct2, THEN conjunct2, THEN conjunct2, THEN conjunct2, THEN conjunct2,
        THEN conjunct2] example_optimizeTransform by simp
  from run dv heap v' tr pose opt ot show ?thesis
    by blast
qed

end
